theory Spec2Isabelle
  imports Complex_Main
begin

section \<open>JavaScript values as the client code observes them\<close>

text \<open>
  A JavaScript string is a sequence of UTF-16 code units; \<open>length\<close>, \<open>substring\<close> and
  \<open>includes\<close> all count code units. The messages of the source that are written in
  Cyrillic are given below by their code units, with a transliteration beside them.
\<close>

type_synonym jsstring = "nat list"

definition ascii :: "string \<Rightarrow> jsstring" where
  "ascii s = map of_char s"

fun startsWith :: "'a list \<Rightarrow> 'a list \<Rightarrow> bool" where
  "startsWith xs [] = True"
| "startsWith [] (p # ps) = False"
| "startsWith (x # xs) (p # ps) = (x = p \<and> startsWith xs ps)"

text \<open>\<open>String.prototype.includes\<close>: the pattern occurs as a contiguous run.\<close>

fun js_includes :: "'a list \<Rightarrow> 'a list \<Rightarrow> bool" where
  "js_includes [] p = (p = [])"
| "js_includes (x # xs) p = (startsWith (x # xs) p \<or> js_includes xs p)"

text \<open>
  A decoded response body (and the payload of a submission). Property reads on anything
  but an object give \<open>undefined\<close> (\<open>None\<close>) for the property names this client
  reads; a read on \<open>null\<close> throws and is written out at each place where the source
  can do it. An object is the list of its keys with their values, the first entry of a
  key being the one that counts. Its keys are taken not to shadow the methods of
  \<open>Object.prototype\<close> (\<open>toString\<close>, \<open>valueOf\<close>), so that converting it to a
  string or a number does not throw. A number is the rational it stands for.
\<close>

datatype json =
    JNull
  | JBool bool
  | JNum rat
  | JStr jsstring
  | JArr "json list"
  | JObj "(jsstring \<times> json) list"

fun truthy :: "json \<Rightarrow> bool" where
  "truthy JNull = False"
| "truthy (JBool b) = b"
| "truthy (JNum r) = (r \<noteq> 0)"
| "truthy (JStr s) = (s \<noteq> [])"
| "truthy (JArr xs) = True"
| "truthy (JObj kvs) = True"

fun truthyOpt :: "json option \<Rightarrow> bool" where
  "truthyOpt None = False"
| "truthyOpt (Some v) = truthy v"

fun getProp :: "json \<Rightarrow> jsstring \<Rightarrow> json option" where
  "getProp (JObj kvs) k = map_of kvs k"
| "getProp v k = None"

fun typeofObject :: "json \<Rightarrow> bool" where
  "typeofObject JNull = True"
| "typeofObject (JArr xs) = True"
| "typeofObject (JObj kvs) = True"
| "typeofObject v = False"

fun joinComma :: "jsstring list \<Rightarrow> jsstring" where
  "joinComma [] = []"
| "joinComma [s] = s"
| "joinComma (s # t # ss) = s @ ascii '','' @ joinComma (t # ss)"

text \<open>
  \<open>ToString\<close>, as \<open>new Error(x)\<close> applies it to its argument. The rendering of a
  number is a parameter (the runtime's \<open>Number::toString\<close>).
\<close>

fun toString :: "(rat \<Rightarrow> jsstring) \<Rightarrow> json \<Rightarrow> jsstring" where
  "toString f JNull = ascii ''null''"
| "toString f (JBool b) = (if b then ascii ''true'' else ascii ''false'')"
| "toString f (JNum r) = f r"
| "toString f (JStr s) = s"
| "toString f (JArr xs) = joinComma (map (\<lambda>x. if x = JNull then [] else toString f x) xs)"
| "toString f (JObj kvs) = ascii ''[object Object]''"

datatype jserror = JSError (name: jsstring) (message: jsstring)

definition Error :: "jsstring \<Rightarrow> jserror" where
  "Error m = JSError (ascii ''Error'') m"

definition TypeError :: "jsstring \<Rightarrow> jserror" where
  "TypeError m = JSError (ascii ''TypeError'') m"

section \<open>api.js: fetchAPI\<close>

record request =
  url :: jsstring
  httpMethod :: jsstring
  authorization :: "jsstring option"
  body :: "jsstring option"

text \<open>
  What \<open>fetch\<close> gives back: a rejection, or a response whose header and body reads are
  listed with their outcomes (\<open>response.json()\<close> and \<open>response.text()\<close> may throw).
\<close>

record response =
  ok :: bool
  status :: nat
  statusText :: jsstring
  contentType :: "jsstring option"
  jsonBody :: "jserror + json"
  textBody :: "jserror + jsstring"

datatype fetch_outcome = Rejected jserror | Resolved response

text \<open>
  The surroundings of a call: the stored token (\<open>localStorage.getItem('token')\<close>), the
  network (the outcome of each \<open>fetch\<close>, which may depend on every request issued so
  far, the current one last), and the two runtime primitives \<open>JSON.stringify\<close>
  (\<open>None\<close> when it throws) and the rendering of numbers.
\<close>

record env =
  token :: "jsstring option"
  network :: "request list \<Rightarrow> fetch_outcome"
  stringify :: "json \<Rightarrow> jsstring option"
  numberToString :: "rat \<Rightarrow> jsstring"

definition API_URL :: jsstring where
  "API_URL = ascii ''http://localhost:8000''"

text \<open>Trebuetsya avtorizatsiya (authorisation required).\<close>

definition msgAuthRequired :: jsstring where
  "msgAuthRequired = [1058, 1088, 1077, 1073, 1091, 1077, 1090, 1089, 1103, 32, 1072, 1074,
     1090, 1086, 1088, 1080, 1079, 1072, 1094, 1080, 1103]"

text \<open>Ne udalos' preobrazovat' dannye v JSON (could not convert the data to JSON).\<close>

definition msgNotSerializable :: jsstring where
  "msgNotSerializable = [1053, 1077, 32, 1091, 1076, 1072, 1083, 1086, 1089, 1100, 32, 1087,
     1088, 1077, 1086, 1073, 1088, 1072, 1079, 1086, 1074, 1072, 1090, 1100, 32, 1076, 1072,
     1085, 1085, 1099, 1077, 32, 1074, 32, 74, 83, 79, 78]"

text \<open>Proizoshla oshibka pri vypolnenii zaprosa (an error occurred while running the request).\<close>

definition msgRequestFailed :: jsstring where
  "msgRequestFailed = [1055, 1088, 1086, 1080, 1079, 1086, 1096, 1083, 1072, 32, 1086, 1096,
     1080, 1073, 1082, 1072, 32, 1087, 1088, 1080, 32, 1074, 1099, 1087, 1086, 1083, 1085, 1077,
     1085, 1080, 1080, 32, 1079, 1072, 1087, 1088, 1086, 1089, 1072]"

text \<open>Oshibka, followed by a space (error).\<close>

definition msgErrorPrefix :: jsstring where
  "msgErrorPrefix = [1054, 1096, 1080, 1073, 1082, 1072, 32]"

text \<open>Poluchen nekorrektnyi JSON ot servera (malformed JSON received from the server).\<close>

definition msgBadJson :: jsstring where
  "msgBadJson = [1055, 1086, 1083, 1091, 1095, 1077, 1085, 32, 1085, 1077, 1082, 1086, 1088,
     1088, 1077, 1082, 1090, 1085, 1099, 1081, 32, 74, 83, 79, 78, 32, 1086, 1090, 32, 1089,
     1077, 1088, 1074, 1077, 1088, 1072]"

text \<open>Prevysheno vremya ozhidaniya otveta ot servera (timed out waiting for the server).\<close>

definition msgTimeout :: jsstring where
  "msgTimeout = [1055, 1088, 1077, 1074, 1099, 1096, 1077, 1085, 1086, 32, 1074, 1088, 1077,
     1084, 1103, 32, 1086, 1078, 1080, 1076, 1072, 1085, 1080, 1103, 32, 1086, 1090, 1074, 1077,
     1090, 1072, 32, 1086, 1090, 32, 1089, 1077, 1088, 1074, 1077, 1088, 1072]"

text \<open>
  Ne udalos' podklyuchit'sya k serveru. Prover'te podklyuchenie k internetu.
  (could not connect to the server; check the internet connection).
\<close>

definition msgNetwork :: jsstring where
  "msgNetwork = [1053, 1077, 32, 1091, 1076, 1072, 1083, 1086, 1089, 1100, 32, 1087, 1086,
     1076, 1082, 1083, 1102, 1095, 1080, 1090, 1100, 1089, 1103, 32, 1082, 32, 1089, 1077, 1088,
     1074, 1077, 1088, 1091, 46, 32, 1055, 1088, 1086, 1074, 1077, 1088, 1100, 1090, 1077, 32,
     1087, 1086, 1076, 1082, 1083, 1102, 1095, 1077, 1085, 1080, 1077, 32, 1082, 32, 1080, 1085,
     1090, 1077, 1088, 1085, 1077, 1090, 1091, 46]"

fun digits :: "nat \<Rightarrow> jsstring" where
  "digits n = (if n < 10 then [48 + n] else digits (n div 10) @ [48 + n mod 10])"

definition falsyString :: "jsstring option \<Rightarrow> bool" where
  "falsyString s = (s = None \<or> s = Some [])"

text \<open>Lines 19 to 25: the Authorization header, or the failure when no token is stored.\<close>

definition authorizationHeader :: "env \<Rightarrow> bool \<Rightarrow> jserror + jsstring option" where
  "authorizationHeader e auth =
     (if auth then
        (case token e of
           None \<Rightarrow> Inl (Error msgAuthRequired)
         | Some t \<Rightarrow> if t = [] then Inl (Error msgAuthRequired)
                     else Inr (Some (ascii ''Bearer '' @ t)))
      else Inr None)"

text \<open>Lines 40 to 47: the body, only for a truthy \<open>data\<close> and POST, PUT or PATCH.\<close>

definition requestBody :: "env \<Rightarrow> jsstring \<Rightarrow> json option \<Rightarrow> jserror + jsstring option" where
  "requestBody e m data =
     (case data of
        None \<Rightarrow> Inr None
      | Some d \<Rightarrow>
          if truthy d \<and> m \<in> set [ascii ''POST'', ascii ''PUT'', ascii ''PATCH''] then
            (case stringify e d of
               None \<Rightarrow> Inl (Error msgNotSerializable)
             | Some s \<Rightarrow> Inr (Some s))
          else Inr None)"

definition isJsonContent :: "jsstring option \<Rightarrow> bool" where
  "isJsonContent ct =
     (case ct of None \<Rightarrow> False | Some c \<Rightarrow> c \<noteq> [] \<and> js_includes c (ascii ''application/json''))"

definition statusMessage :: "response \<Rightarrow> jsstring" where
  "statusMessage r = msgErrorPrefix @ digits (status r) @ ascii '': '' @ statusText r"

text \<open>Lines 60 to 76: the message of the error thrown for a response that is not ok.\<close>

definition httpErrorMessage :: "env \<Rightarrow> response \<Rightarrow> jsstring" where
  "httpErrorMessage e r =
     (if isJsonContent (contentType r) then
        (case jsonBody r of
           Inl parseError \<Rightarrow> statusMessage r
         | Inr errorData \<Rightarrow>
             if errorData = JNull then statusMessage r
             else (case getProp errorData (ascii ''detail'') of
                     None \<Rightarrow> msgRequestFailed
                   | Some d \<Rightarrow> if truthy d then toString (numberToString e) d
                               else msgRequestFailed))
      else
        (case textBody r of
           Inl parseError \<Rightarrow> statusMessage r
         | Inr t \<Rightarrow>
             (let errorMessage = (if t = [] then msgRequestFailed else t)
              in if length errorMessage > 100 then take 100 errorMessage @ ascii ''...''
                 else errorMessage)))"

text \<open>Lines 53 to 100: what the body of the outer \<open>try\<close> does with a response.\<close>

definition readResponse :: "env \<Rightarrow> response \<Rightarrow> jserror + json" where
  "readResponse e r =
     (if \<not> ok r then Inl (Error (httpErrorMessage e r))
      else if falsyString (contentType r) then Inr JNull
      else if isJsonContent (contentType r) then
        (case jsonBody r of
           Inl jsonError \<Rightarrow> Inl (Error msgBadJson)
         | Inr responseData \<Rightarrow> Inr responseData)
      else
        (case textBody r of
           Inl err \<Rightarrow> Inl err
         | Inr textResponse \<Rightarrow> Inr (JStr textResponse)))"

text \<open>Lines 101 to 113: the outer \<open>catch\<close>, which rewrites two kinds of error.\<close>

definition rethrow :: "jserror \<Rightarrow> jserror" where
  "rethrow err =
     (if name err = ascii ''AbortError'' then Error msgTimeout
      else if name err = ascii ''TypeError'' \<and> js_includes (message err) (ascii ''Failed to fetch'')
        then Error msgNetwork
      else err)"

text \<open>
  \<open>fetchAPI\<close> takes the requests issued so far and returns them with the request it
  issued, if it issued one. Nothing in it issues a second request.
\<close>

definition fetchAPI ::
  "env \<Rightarrow> jsstring \<Rightarrow> jsstring \<Rightarrow> json option \<Rightarrow> bool \<Rightarrow> request list
     \<Rightarrow> (jserror + json) \<times> request list" where
  "fetchAPI e endpoint m data auth sent =
     (case authorizationHeader e auth of
        Inl err \<Rightarrow> (Inl err, sent)
      | Inr hdr \<Rightarrow>
          (case requestBody e m data of
             Inl err \<Rightarrow> (Inl err, sent)
           | Inr b \<Rightarrow>
               (let sent' = sent @ [\<lparr>url = API_URL @ endpoint, httpMethod = m,
                                      authorization = hdr, body = b\<rparr>]
                in (case network e sent' of
                      Rejected err \<Rightarrow> (Inl (rethrow err), sent')
                    | Resolved r \<Rightarrow>
                        (case readResponse e r of
                           Inl err \<Rightarrow> (Inl (rethrow err), sent')
                         | Inr v \<Rightarrow> (Inr v, sent'))))))"

section \<open>api.js: PredictionAPI\<close>

text \<open>Ne predostavleny dannye tranzaktsii dlya analiza (no transaction data was given).\<close>

definition msgNoTransactionData :: jsstring where
  "msgNoTransactionData = [1053, 1077, 32, 1087, 1088, 1077, 1076, 1086, 1089, 1090, 1072, 1074,
     1083, 1077, 1085, 1099, 32, 1076, 1072, 1085, 1085, 1099, 1077, 32, 1090, 1088, 1072, 1085,
     1079, 1072, 1082, 1094, 1080, 1080, 32, 1076, 1083, 1103, 32, 1072, 1085, 1072, 1083, 1080,
     1079, 1072]"

text \<open>Otsutstvuet obyazatel'noe pole, a colon and a space (a required field is missing).\<close>

definition msgMissingField :: jsstring where
  "msgMissingField = [1054, 1090, 1089, 1091, 1090, 1089, 1090, 1074, 1091, 1077, 1090, 32, 1086,
     1073, 1103, 1079, 1072, 1090, 1077, 1083, 1100, 1085, 1086, 1077, 32, 1087, 1086, 1083, 1077,
     58, 32]"

text \<open>Ne ukazan identifikator predskazaniya (no prediction identifier was given).\<close>

definition msgNoIdentifier :: jsstring where
  "msgNoIdentifier = [1053, 1077, 32, 1091, 1082, 1072, 1079, 1072, 1085, 32, 1080, 1076, 1077,
     1085, 1090, 1080, 1092, 1080, 1082, 1072, 1090, 1086, 1088, 32, 1087, 1088, 1077, 1076, 1089,
     1082, 1072, 1079, 1072, 1085, 1080, 1103]"

text \<open>The word server (the stem that \<open>getPrediction\<close> looks for in a message).\<close>

definition msgServer :: jsstring where
  "msgServer = [1089, 1077, 1088, 1074, 1077, 1088]"

definition requiredFields :: "jsstring list" where
  "requiredFields = map ascii [''id'', ''amount'', ''origin_account'', ''dest_account'',
     ''old_balance_orig'', ''new_balance_orig'', ''old_balance_dest'', ''new_balance_dest'',
     ''hour'', ''day'', ''month'']"

text \<open>
  \<open>field in transactionData\<close> for an object or an array (the guard before the loop lets
  nothing else through). An array has its indices and \<open>length\<close> as keys, none of which
  is a required field.
\<close>

fun inObject :: "jsstring \<Rightarrow> json \<Rightarrow> bool" where
  "inObject field (JObj kvs) = (field \<in> set (map fst kvs))"
| "inObject field v = False"

text \<open>The loop of lines 225 to 229: the first field of the list that is absent.\<close>

fun firstMissing :: "jsstring list \<Rightarrow> json \<Rightarrow> jsstring option" where
  "firstMissing [] transactionData = None"
| "firstMissing (field # rest) transactionData =
     (if \<not> inObject field transactionData then Some field
      else firstMissing rest transactionData)"

definition analyzeTransaction ::
  "env \<Rightarrow> json \<Rightarrow> request list \<Rightarrow> (jserror + json) \<times> request list" where
  "analyzeTransaction e transactionData sent =
     (if \<not> truthy transactionData \<or> \<not> typeofObject transactionData
      then (Inl (Error msgNoTransactionData), sent)
      else
        (case firstMissing requiredFields transactionData of
           Some field \<Rightarrow> (Inl (Error (msgMissingField @ field)), sent)
         | None \<Rightarrow>
             fetchAPI e (ascii ''/api/predictions/predict'') (ascii ''POST'')
               (Some (JObj [(ascii ''data'', JObj [(ascii ''transaction'', transactionData)])]))
               True sent))"

definition maxRetries :: nat where
  "maxRetries = 3"

text \<open>
  The \<open>while\<close> loop of \<open>getPrediction\<close> (lines 262 to 281), with \<open>retries\<close> as its
  loop variable. The pause of one second before the next attempt changes nothing that is
  modelled. The loop cannot be left through its condition when entered with
  \<open>retries = 0\<close>; the value after it would be \<open>undefined\<close>, which every caller
  treats as it treats \<open>null\<close>.
\<close>

function getPrediction_loop ::
  "env \<Rightarrow> jsstring \<Rightarrow> nat \<Rightarrow> request list \<Rightarrow> (jserror + json) \<times> request list" where
  "getPrediction_loop e ident retries sent =
     (if retries < maxRetries then
        (case fetchAPI e (ascii ''/api/predictions/'' @ ident) (ascii ''GET'') None True sent of
           (Inr result, sent') \<Rightarrow> (Inr result, sent')
         | (Inl err, sent') \<Rightarrow>
             if retries + 1 \<ge> maxRetries
                \<or> (message err \<noteq> [] \<and> \<not> js_includes (message err) msgServer)
             then (Inl err, sent')
             else getPrediction_loop e ident (retries + 1) sent')
      else (Inr JNull, sent))"
  by pat_completeness auto
termination
  by (relation "measure (\<lambda>(e, ident, retries, sent). maxRetries - retries)") auto

declare getPrediction_loop.simps [simp del]

definition getPrediction ::
  "env \<Rightarrow> jsstring option \<Rightarrow> request list \<Rightarrow> (jserror + json) \<times> request list" where
  "getPrediction e ident sent =
     (case ident of
        None \<Rightarrow> (Inl (Error msgNoIdentifier), sent)
      | Some i \<Rightarrow> if i = [] then (Inl (Error msgNoIdentifier), sent)
                  else getPrediction_loop e i 0 sent)"

text \<open>The call of line 265, one attempt of \<open>getPrediction\<close> for the job \<open>ident\<close>.\<close>

definition statusCall ::
  "env \<Rightarrow> jsstring \<Rightarrow> request list \<Rightarrow> (jserror + json) \<times> request list" where
  "statusCall e ident sent =
     fetchAPI e (ascii ''/api/predictions/'' @ ident) (ascii ''GET'') None True sent"

section \<open>The controller: App.checkPredictionStatus\<close>

text \<open>
  What a timer will call, and what the result panel shows. The panel is recorded by
  which of the source's templates was written to it, not by its markup.
\<close>

datatype callback = CheckPredictionStatus jsstring | LoadBalance | BindHistoryButton

datatype panel =
    Blank
  | InvalidIdentifier
  | NoPredictionInfo
  | Rendered json
  | Processing
  | NotFound
  | TemporaryDifficulties
  | TechnicalProblems
  | OtherError jsstring

text \<open>
  The fields of the controller that \<open>checkPredictionStatus\<close> reads and writes. The
  two counters are properties of \<open>this\<close>; no constructor sets them, so they start as
  \<open>undefined\<close> (\<open>None\<close>), and they are numbers far below the range where a double
  stops counting in steps of one. \<open>balanceLoads\<close> counts the calls of
  \<open>this.loadBalance()\<close>, which is the signal to fetch the balance again; what
  \<open>loadBalance\<close> then does is not part of the model. \<open>timers\<close> lists every
  \<open>setTimeout\<close> in the order of the calls, with its delay in milliseconds. The element
  that \<open>resultContent\<close> stands for is taken to exist in the page.
\<close>

record app =
  predictionRetryCount :: "nat option"
  predictionErrorRetryCount :: "nat option"
  resultContent :: panel
  balanceLoads :: nat
  timers :: "(rat \<times> callback) list"

definition isNumber :: "json \<Rightarrow> bool" where
  "isNumber v = (case v of JNum r \<Rightarrow> True | _ \<Rightarrow> False)"

text \<open>
  \<open>displayPredictionResult\<close> (lines 493 to 574). It throws in one place only: a
  completed prediction whose \<open>result.processing_time\<close> is truthy and not a number has no
  \<open>toFixed\<close>. The panel is written in the last statement, so a throw leaves it as it was.
\<close>

definition displayPredictionResult :: "json \<Rightarrow> app \<Rightarrow> jserror + app" where
  "displayPredictionResult prediction a =
     (if \<not> truthy prediction then Inr (a\<lparr>resultContent := NoPredictionInfo\<rparr>)
      else if getProp prediction (ascii ''status'') = Some (JStr (ascii ''completed''))
              \<and> truthyOpt (getProp prediction (ascii ''result''))
      then
        (case getProp prediction (ascii ''result'') of
           None \<Rightarrow> Inr (a\<lparr>resultContent := Rendered prediction\<rparr>)
         | Some result \<Rightarrow>
             (case getProp result (ascii ''processing_time'') of
                None \<Rightarrow> Inr (a\<lparr>resultContent := Rendered prediction\<rparr>)
              | Some t \<Rightarrow>
                  if truthy t \<and> \<not> isNumber t
                  then Inl (TypeError (ascii ''result.processing_time.toFixed is not a function''))
                  else Inr (a\<lparr>resultContent := Rendered prediction\<rparr>)))
      else Inr (a\<lparr>resultContent := Rendered prediction\<rparr>))"

text \<open>Litsa ne obnaruzheny (no faces detected): the marker of lines 397 and 398.\<close>

definition msgNoFaces :: jsstring where
  "msgNoFaces = [1051, 1080, 1094, 1072, 32, 1085, 1077, 32, 1086, 1073, 1085, 1072, 1088, 1091,
     1078, 1077, 1085, 1099]"

text \<open>
  \<open>x.includes(marker)\<close> for a truthy \<open>x\<close>: a substring test on a string, a membership
  test on an array, and a TypeError on anything else (no such method).
\<close>

definition includesMarker :: "json \<Rightarrow> jserror + bool" where
  "includesMarker x =
     (case x of
        JStr s \<Rightarrow> Inr (js_includes s msgNoFaces)
      | JArr xs \<Rightarrow> Inr (JStr msgNoFaces \<in> set xs)
      | _ \<Rightarrow> Inl (TypeError (ascii ''prediction.result.prediction.includes is not a function'')))"

text \<open>
  The second operand of the condition of lines 395 to 398, in the order in which it is
  evaluated: the result of the prediction carries the marker.
\<close>

definition resultFlagged :: "json \<Rightarrow> jserror + bool" where
  "resultFlagged prediction =
     (case getProp prediction (ascii ''result'') of
        None \<Rightarrow> Inr False
      | Some result \<Rightarrow>
          if \<not> truthy result then Inr False
          else if typeofObject result then
            (case getProp result (ascii ''prediction'') of
               None \<Rightarrow> Inr False
             | Some p \<Rightarrow> if truthy p then includesMarker p else Inr False)
          else (case result of JStr s \<Rightarrow> Inr (js_includes s msgNoFaces) | _ \<Rightarrow> Inr False))"

text \<open>The whole condition: a failed status decides it before the result is looked at.\<close>

definition refundPossible :: "json \<Rightarrow> jserror + bool" where
  "refundPossible prediction =
     (if getProp prediction (ascii ''status'') = Some (JStr (ascii ''failed'')) then Inr True
      else resultFlagged prediction)"

definition baseDelay :: rat where
  "baseDelay = 2000"

definition maxDelay :: rat where
  "maxDelay = 10000"

text \<open>
  Line 420, \<open>Math.min(baseDelay * Math.pow(1.5, retryCount), maxDelay)\<close>, over the
  rationals. The doubles of the source give the same values: up to \<open>retryCount = 3\<close>
  the product is exact (2000, 3000, 4500, 6750), and from 4 on it is above
  \<open>maxDelay\<close> (or infinite), so that the minimum is \<open>maxDelay\<close>.
\<close>

definition pendingDelay :: "nat \<Rightarrow> rat" where
  "pendingDelay retryCount = min (baseDelay * (3 / 2) ^ retryCount) maxDelay"

definition orZero :: "nat option \<Rightarrow> nat" where
  "orZero c = (case c of None \<Rightarrow> 0 | Some n \<Rightarrow> n)"

text \<open>
  The body of the \<open>try\<close> after the awaited query (lines 385 to 426): the error thrown
  in it, if any, and the controller as the statements before the throw left it. The
  errors thrown here are TypeErrors of the runtime, whose messages are the engine's own;
  they are written as V8 words them.
\<close>

definition tryBody :: "jsstring \<Rightarrow> json \<Rightarrow> app \<Rightarrow> jserror option \<times> app" where
  "tryBody predictionId prediction a =
     (if prediction = JNull
      then (Some (TypeError (ascii ''Cannot read properties of null (reading 'status')'')), a)
      else if getProp prediction (ascii ''status'') \<noteq> Some (JStr (ascii ''pending'')) then
        (case displayPredictionResult prediction a of
           Inl err \<Rightarrow> (Some err, a)
         | Inr a1 \<Rightarrow>
             (let a2 = a1\<lparr>balanceLoads := balanceLoads a1 + 1\<rparr>
              in (case refundPossible prediction of
                    Inl err \<Rightarrow> (Some err, a2)
                  | Inr extra \<Rightarrow>
                      if extra then (None, a2\<lparr>timers := timers a2 @ [(1000, LoadBalance)]\<rparr>)
                      else (None, a2))))
      else
        (let retryCount = orZero (predictionRetryCount a)
         in (None, a\<lparr>resultContent := Processing,
                       predictionRetryCount := Some (retryCount + 1),
                       timers := timers a
                         @ [(pendingDelay retryCount, CheckPredictionStatus predictionId)]\<rparr>)))"

definition maxErrorRetries :: nat where
  "maxErrorRetries = 3"

definition errorRetryDelay :: rat where
  "errorRetryDelay = 5000"

definition isNotFound :: "jserror \<Rightarrow> bool" where
  "isNotFound err = (message err \<noteq> [] \<and> js_includes (message err) (ascii ''not found''))"

definition isServerInternal :: "jserror \<Rightarrow> bool" where
  "isServerInternal err =
     (message err \<noteq> [] \<and> js_includes (message err) (ascii ''Internal Server Error''))"

text \<open>The \<open>catch\<close> of lines 427 to 486.\<close>

definition catchBody :: "jsstring \<Rightarrow> jserror \<Rightarrow> app \<Rightarrow> app" where
  "catchBody predictionId err a =
     (if isNotFound err then a\<lparr>resultContent := NotFound\<rparr>
      else if isServerInternal err then
        (let errorRetryCount = orZero (predictionErrorRetryCount a);
             a1 = a\<lparr>resultContent := TemporaryDifficulties,
                    predictionErrorRetryCount := Some (errorRetryCount + 1)\<rparr>
         in if errorRetryCount + 1 \<le> maxErrorRetries
            then a1\<lparr>timers := timers a1
                       @ [(errorRetryDelay, CheckPredictionStatus predictionId)]\<rparr>
            else a1\<lparr>resultContent := TechnicalProblems,
                     timers := timers a1 @ [(100, BindHistoryButton)]\<rparr>)
      else a\<lparr>resultContent := OtherError (message err)\<rparr>)"

text \<open>
  One call of \<open>checkPredictionStatus\<close>, from the controller and the requests issued so
  far to the controller and the requests when the call has run to its end. The controller
  is read only after the awaited query has settled, as in the source.
\<close>

definition checkPredictionStatus ::
  "env \<Rightarrow> jsstring option \<Rightarrow> app \<times> request list \<Rightarrow> app \<times> request list" where
  "checkPredictionStatus e predictionId st =
     (case st of (a, sent) \<Rightarrow>
        (case predictionId of
           None \<Rightarrow> (a\<lparr>resultContent := InvalidIdentifier\<rparr>, sent)
         | Some pid \<Rightarrow>
             if pid = [] then (a\<lparr>resultContent := InvalidIdentifier\<rparr>, sent)
             else
               (case getPrediction e predictionId sent of
                  (Inl err, sent') \<Rightarrow> (catchBody pid err a, sent')
                | (Inr prediction, sent') \<Rightarrow>
                    (case tryBody pid prediction a of
                       (Some err, a') \<Rightarrow> (catchBody pid err a', sent')
                     | (None, a') \<Rightarrow> (a', sent')))))"

text \<open>A controller on which nothing has run yet.\<close>

definition freshApp :: app where
  "freshApp = \<lparr>predictionRetryCount = None, predictionErrorRetryCount = None,
                resultContent = Blank, balanceLoads = 0, timers = []\<rparr>"

text \<open>
  A network that answers the n-th request with the n-th entry of a script and refuses
  the connection once the script is used up, with a token stored.
\<close>

definition scripted :: "fetch_outcome list \<Rightarrow> env" where
  "scripted script =
     \<lparr>token = Some (ascii ''t0''),
      network = (\<lambda>sent. if 0 < length sent \<and> length sent \<le> length script
                         then script ! (length sent - 1)
                         else Rejected (TypeError (ascii ''Failed to fetch''))),
      stringify = (\<lambda>v. Some (ascii ''{}'')),
      numberToString = (\<lambda>r. ascii ''0'')\<rparr>"

definition jsonResponse :: "bool \<Rightarrow> nat \<Rightarrow> jsstring \<Rightarrow> json \<Rightarrow> fetch_outcome" where
  "jsonResponse good code reason v =
     Resolved \<lparr>ok = good, status = code, statusText = reason,
               contentType = Some (ascii ''application/json''),
               jsonBody = Inr v, textBody = Inl (TypeError (ascii ''body used already''))\<rparr>"

definition statusReply :: "string \<Rightarrow> fetch_outcome" where
  "statusReply s = jsonResponse True 200 (ascii ''OK'') (JObj [(ascii ''status'', JStr (ascii s))])"

definition internalError :: fetch_outcome where
  "internalError =
     Resolved \<lparr>ok = False, status = 500, statusText = ascii ''Internal Server Error'',
               contentType = Some (ascii ''text/plain''),
               jsonBody = Inl (JSError (ascii ''SyntaxError'') (ascii ''Unexpected token'')),
               textBody = Inr (ascii ''Internal Server Error'')\<rparr>"

definition notFoundReply :: fetch_outcome where
  "notFoundReply =
     jsonResponse False 404 (ascii ''Not Found'')
       (JObj [(ascii ''detail'', JStr (ascii ''Prediction not found''))])"

text \<open>A network that gives every request the same outcome.\<close>

definition constantly :: "fetch_outcome \<Rightarrow> env" where
  "constantly outcome = (scripted [])\<lparr>network := (\<lambda>sent. outcome)\<rparr>"

text \<open>Concrete payloads and scripts, used to run the code on explicit inputs.\<close>

definition partialPayload :: json where
  "partialPayload = JObj [(ascii ''id'', JStr (ascii ''T1'')), (ascii ''amount'', JNum 100),
     (ascii ''dest_account'', JStr (ascii ''B''))]"

definition fullPayload :: json where
  "fullPayload = JObj (map (\<lambda>f. (f, JNum 1)) requiredFields)"

definition pendingTwice :: "fetch_outcome list" where
  "pendingTwice = [statusReply ''pending'', statusReply ''pending'', statusReply ''completed'']"


text \<open>\<open>n\<close> calls of \<open>checkPredictionStatus\<close> for one job, each after the one before.\<close>

definition pollTimes :: "nat \<Rightarrow> env \<Rightarrow> jsstring \<Rightarrow> app \<times> request list \<Rightarrow> app \<times> request list" where
  "pollTimes n e pid = (checkPredictionStatus e (Some pid)) ^^ n"

text \<open>
  Two ways in which the thirty seconds of line 32 can end a request. Where
  \<open>AbortSignal.timeout\<close> exists, the rejection is named \<open>TimeoutError\<close>; on the
  fallback path the \<open>AbortController\<close> rejects with an \<open>AbortError\<close>.
\<close>

definition signalTimedOut :: fetch_outcome where
  "signalTimedOut = Rejected (JSError (ascii ''TimeoutError'') (ascii ''signal timed out''))"

definition controllerAborted :: fetch_outcome where
  "controllerAborted =
     Rejected (JSError (ascii ''AbortError'') (ascii ''The operation was aborted.''))"

definition malformedJson :: fetch_outcome where
  "malformedJson =
     Resolved \<lparr>ok = True, status = 200, statusText = ascii ''OK'',
               contentType = Some (ascii ''application/json''),
               jsonBody = Inl (JSError (ascii ''SyntaxError'') (ascii ''Unexpected token'')),
               textBody = Inl (TypeError (ascii ''body used already''))\<rparr>"





definition statusRequest :: "jsstring \<Rightarrow> request" where
  "statusRequest pid =
     \<lparr>url = API_URL @ ascii ''/api/predictions/'' @ pid, httpMethod = ascii ''GET'',
      authorization = Some (ascii ''Bearer t0''), body = None\<rparr>"

definition failuresAroundPending :: "fetch_outcome list" where
  "failuresAroundPending =
     [internalError, internalError, internalError, statusReply ''pending'', internalError]"

definition failureThenPending :: "fetch_outcome list" where
  "failureThenPending = [internalError, statusReply ''pending'']"

section \<open>Evaluation and shared lemmas\<close>

lemmas api_defs = getPrediction_def getPrediction_loop.simps maxRetries_def fetchAPI_def
  scripted_def constantly_def authorizationHeader_def requestBody_def internalError_def
  notFoundReply_def statusReply_def jsonResponse_def readResponse_def httpErrorMessage_def
  isJsonContent_def falsyString_def ascii_def rethrow_def Error_def TypeError_def msgServer_def
  API_URL_def

lemma firstMissing_filter:
  "firstMissing fs td =
     (case filter (\<lambda>f. \<not> inObject f td) fs of [] \<Rightarrow> None | f # rest \<Rightarrow> Some f)"
  by (induction fs) auto

lemma fetchAPI_sent:
  "snd (fetchAPI e endpoint m data auth sent) = sent
   \<or> (\<exists>r. snd (fetchAPI e endpoint m data auth sent) = sent @ [r])"
  by (auto simp: fetchAPI_def Let_def split: sum.splits fetch_outcome.splits)

text \<open>No error thrown inside the \<open>try\<close> after the query reads as not-found or server-internal.\<close>

lemma includesMarker_error:
  "includesMarker x = Inl err \<Longrightarrow> \<not> isNotFound err \<and> \<not> isServerInternal err"
  by (auto simp: includesMarker_def isNotFound_def isServerInternal_def TypeError_def ascii_def
      split: json.splits)

lemma resultFlagged_error:
  "resultFlagged p = Inl err \<Longrightarrow> \<not> isNotFound err \<and> \<not> isServerInternal err"
  by (auto simp: resultFlagged_def dest: includesMarker_error
      split: if_splits option.splits json.splits)

lemma refundPossible_error:
  "refundPossible p = Inl err \<Longrightarrow> \<not> isNotFound err \<and> \<not> isServerInternal err"
  by (auto simp: refundPossible_def dest: resultFlagged_error split: if_splits)

lemma displayPredictionResult_error:
  "displayPredictionResult p a = Inl err \<Longrightarrow> \<not> isNotFound err \<and> \<not> isServerInternal err"
  by (auto simp: displayPredictionResult_def isNotFound_def isServerInternal_def TypeError_def
      ascii_def split: if_splits option.splits)

lemma displayPredictionResult_fields:
  "displayPredictionResult p a = Inr a1 \<Longrightarrow> \<exists>v. a1 = a\<lparr>resultContent := v\<rparr>"
  by (auto simp: displayPredictionResult_def split: if_splits option.splits)

lemma tryBody_error:
  "tryBody pid p a = (Some err, a') \<Longrightarrow> \<not> isNotFound err \<and> \<not> isServerInternal err"
  unfolding tryBody_def
  apply (simp split: if_splits sum.splits add: Let_def)
   apply (simp add: isNotFound_def isServerInternal_def TypeError_def ascii_def)
  apply (auto dest: refundPossible_error displayPredictionResult_error)
  done

lemma catchBody_other:
  "\<not> isNotFound err \<Longrightarrow> \<not> isServerInternal err
   \<Longrightarrow> catchBody pid err a = a\<lparr>resultContent := OtherError (message err)\<rparr>"
  by (simp add: catchBody_def)

lemma checkPredictionStatus_success:
  "pid \<noteq> [] \<Longrightarrow> getPrediction e (Some pid) sent = (Inr p, sent')
   \<Longrightarrow> checkPredictionStatus e (Some pid) (a, sent)
       = (case tryBody pid p a of
            (Some err, a') \<Rightarrow> catchBody pid err a'
          | (None, a') \<Rightarrow> a', sent')"
  by (simp add: checkPredictionStatus_def split: prod.splits option.splits)

lemma checkPredictionStatus_failure:
  "pid \<noteq> [] \<Longrightarrow> getPrediction e (Some pid) sent = (Inl err, sent')
   \<Longrightarrow> checkPredictionStatus e (Some pid) (a, sent) = (catchBody pid err a, sent')"
  by (simp add: checkPredictionStatus_def)

lemma tryBody_pending:
  "getProp p (ascii ''status'') = Some (JStr (ascii ''pending''))
   \<Longrightarrow> tryBody pid p a =
       (None, a\<lparr>resultContent := Processing,
                 predictionRetryCount := Some (orZero (predictionRetryCount a) + 1),
                 timers := timers a
                   @ [(pendingDelay (orZero (predictionRetryCount a)),
                       CheckPredictionStatus pid)]\<rparr>)"
  by (cases p) (auto simp: tryBody_def Let_def)


text \<open>
  The delays of the pending schedule: 2000, 3000, 4500 and 6750 milliseconds for the
  first four pending outcomes, and 10000 from the fifth on.
\<close>

lemma pendingDelay_values:
  "pendingDelay 0 = 2000" "pendingDelay 1 = 3000" "pendingDelay 2 = 4500"
  "pendingDelay 3 = 6750" "4 \<le> n \<Longrightarrow> pendingDelay n = 10000"
  "pendingDelay (Suc 0) = 3000"
proof -
  show "pendingDelay (Suc 0) = 3000"
    by (simp add: pendingDelay_def baseDelay_def maxDelay_def)
  show "pendingDelay 0 = 2000" "pendingDelay 1 = 3000" "pendingDelay 2 = 4500"
    "pendingDelay 3 = 6750"
    by (simp_all add: pendingDelay_def baseDelay_def maxDelay_def power2_eq_square
        power3_eq_cube)
  assume "4 \<le> n"
  then have "(3 / 2 :: rat) ^ 4 \<le> (3 / 2) ^ n"
    by (intro power_increasing) simp_all
  moreover have "(3 / 2 :: rat) ^ 4 = 81 / 16"
    by (simp add: power4_eq_xxxx)
  ultimately have "(5 :: rat) \<le> (3 / 2) ^ n" by simp
  then show "pendingDelay n = 10000"
    by (simp add: pendingDelay_def baseDelay_def maxDelay_def min_def)
qed

text \<open>What the scripted networks answer to a status query.\<close>

lemma getPrediction_jsonReply:
  "pid \<noteq> [] \<Longrightarrow> length sent < length script
   \<Longrightarrow> script ! length sent = jsonResponse True code reason v
   \<Longrightarrow> getPrediction (scripted script) (Some pid) sent = (Inr v, sent @ [statusRequest pid])"
  by (simp add: api_defs statusRequest_def)

lemma getPrediction_statusReply:
  "pid \<noteq> [] \<Longrightarrow> length sent < length script \<Longrightarrow> script ! length sent = statusReply s
   \<Longrightarrow> getPrediction (scripted script) (Some pid) sent
       = (Inr (JObj [(ascii ''status'', JStr (ascii s))]), sent @ [statusRequest pid])"
  unfolding statusReply_def by (rule getPrediction_jsonReply)

lemma getPrediction_internalError:
  "pid \<noteq> [] \<Longrightarrow> length sent < length script \<Longrightarrow> script ! length sent = internalError
   \<Longrightarrow> getPrediction (scripted script) (Some pid) sent
       = (Inl (Error (ascii ''Internal Server Error'')), sent @ [statusRequest pid])"
  by (simp add: api_defs statusRequest_def)

lemma getPrediction_constantly_statusReply:
  "pid \<noteq> [] \<Longrightarrow> getPrediction (constantly (statusReply s)) (Some pid) sent
       = (Inr (JObj [(ascii ''status'', JStr (ascii s))]), sent @ [statusRequest pid])"
  by (simp add: api_defs statusRequest_def)

lemma getPrediction_constantly_internalError:
  "pid \<noteq> [] \<Longrightarrow> getPrediction (constantly internalError) (Some pid) sent
       = (Inl (Error (ascii ''Internal Server Error'')), sent @ [statusRequest pid])"
  by (simp add: api_defs statusRequest_def)

lemma internalError_kind:
  "\<not> isNotFound (Error (ascii ''Internal Server Error''))"
  "isServerInternal (Error (ascii ''Internal Server Error''))"
  by (simp_all add: isNotFound_def isServerInternal_def Error_def ascii_def)

lemma J1_not_empty: "ascii ''J1'' \<noteq> []" "ascii ''J2'' \<noteq> []"
  by (simp_all add: ascii_def)

lemma pending_status:
  "getProp (JObj [(ascii ''status'', JStr (ascii s))]) (ascii ''status'') = Some (JStr (ascii s))"
  by simp

lemma catchBody_server_internal:
  "\<not> isNotFound err \<Longrightarrow> isServerInternal err
   \<Longrightarrow> catchBody pid err a =
       (if orZero (predictionErrorRetryCount a) + 1 \<le> 3
        then a\<lparr>resultContent := TemporaryDifficulties,
               predictionErrorRetryCount := Some (orZero (predictionErrorRetryCount a) + 1),
               timers := timers a @ [(5000, CheckPredictionStatus pid)]\<rparr>
        else a\<lparr>resultContent := TechnicalProblems,
               predictionErrorRetryCount := Some (orZero (predictionErrorRetryCount a) + 1),
               timers := timers a @ [(100, BindHistoryButton)]\<rparr>)"
  by (simp add: catchBody_def Let_def maxErrorRetries_def errorRetryDelay_def)

lemma pollTimes_0: "pollTimes 0 e pid st = st"
  by (simp add: pollTimes_def)

lemma pollTimes_Suc:
  "pollTimes (Suc n) e pid st = checkPredictionStatus e (Some pid) (pollTimes n e pid st)"
  by (simp add: pollTimes_def)

text \<open>One call on a scripted network, for the two replies the runs below are made of.\<close>

lemma step_internalError:
  "pid \<noteq> [] \<Longrightarrow> length sent < length script \<Longrightarrow> script ! length sent = internalError
   \<Longrightarrow> checkPredictionStatus (scripted script) (Some pid) (a, sent)
       = (catchBody pid (Error (ascii ''Internal Server Error'')) a, sent @ [statusRequest pid])"
  by (simp add: checkPredictionStatus_failure getPrediction_internalError)

lemma step_always_internalError:
  "pid \<noteq> []
   \<Longrightarrow> checkPredictionStatus (constantly internalError) (Some pid) (a, sent)
       = (catchBody pid (Error (ascii ''Internal Server Error'')) a, sent @ [statusRequest pid])"
  by (simp add: checkPredictionStatus_failure getPrediction_constantly_internalError)

lemma step_pending:
  "pid \<noteq> [] \<Longrightarrow> length sent < length script
   \<Longrightarrow> script ! length sent = statusReply ''pending''
   \<Longrightarrow> checkPredictionStatus (scripted script) (Some pid) (a, sent)
       = (a\<lparr>resultContent := Processing,
             predictionRetryCount := Some (orZero (predictionRetryCount a) + 1),
             timers := timers a
               @ [(pendingDelay (orZero (predictionRetryCount a)),
                   CheckPredictionStatus pid)]\<rparr>, sent @ [statusRequest pid])"
  by (simp add: checkPredictionStatus_success [OF _ getPrediction_statusReply]
      tryBody_pending)

lemma tryBody_counters:
  assumes "getProp p (ascii ''status'') \<noteq> Some (JStr (ascii ''pending''))"
    and "tryBody pid p a = (r, a')"
  shows "predictionRetryCount a' = predictionRetryCount a
       \<and> predictionErrorRetryCount a' = predictionErrorRetryCount a"
proof (cases "displayPredictionResult p a")
  case (Inl err)
  with assms show ?thesis
    by (auto simp: tryBody_def split: if_splits)
next
  case (Inr a1)
  then obtain v where "a1 = a\<lparr>resultContent := v\<rparr>"
    using displayPredictionResult_fields by blast
  with assms Inr show ?thesis
    by (auto simp: tryBody_def Let_def split: if_splits sum.splits)
qed

lemma catchBody_pending_counter:
  "predictionRetryCount (catchBody pid err a) = predictionRetryCount a"
  by (simp add: catchBody_def Let_def)

text \<open>The loop of \<open>getPrediction\<close> issues at most as many requests as it has attempts left.\<close>

lemma getPrediction_loop_length:
  "length (snd (getPrediction_loop e i retries sent)) \<le> length sent + (maxRetries - retries)"
proof (induction e i retries sent rule: getPrediction_loop.induct)
  case (1 e ident retries sent)
  let ?call = "fetchAPI e (ascii ''/api/predictions/'' @ ident) (ascii ''GET'') None True sent"
  have one: "length (snd ?call) \<le> length sent + 1"
    using fetchAPI_sent [of e "ascii ''/api/predictions/'' @ ident" "ascii ''GET''" None True sent]
    by auto
  show ?case
  proof (cases "retries < maxRetries")
    case False
    then show ?thesis by (simp add: getPrediction_loop.simps)
  next
    case True
    obtain res sent' where call: "?call = (res, sent')" by (cases ?call)
    show ?thesis
    proof (cases res)
      case (Inr v)
      with True call one show ?thesis
        by (subst getPrediction_loop.simps) simp
    next
      case (Inl err)
      show ?thesis
      proof (cases "retries + 1 \<ge> maxRetries
          \<or> (message err \<noteq> [] \<and> \<not> js_includes (message err) msgServer)")
        case stop: True
        with True call one Inl show ?thesis
          by (subst getPrediction_loop.simps) auto
      next
        case again: False
        have "length (snd (getPrediction_loop e ident (retries + 1) sent'))
            \<le> length sent' + (maxRetries - (retries + 1))"
          using "1.IH" [OF True call [symmetric] Inl again] .
        with True call one Inl again show ?thesis
          by (subst getPrediction_loop.simps) auto
      qed
    qed
  qed
qed





text \<open>The loop of \<open>getPrediction\<close> written out: at most three attempts.\<close>

lemma getPrediction_unrolled:
  assumes "pid \<noteq> []"
  shows "getPrediction e (Some pid) sent =
     (case statusCall e pid sent of
        (Inr v, s1) \<Rightarrow> (Inr v, s1)
      | (Inl e1, s1) \<Rightarrow>
          if message e1 \<noteq> [] \<and> \<not> js_includes (message e1) msgServer then (Inl e1, s1)
          else
            (case statusCall e pid s1 of
               (Inr v, s2) \<Rightarrow> (Inr v, s2)
             | (Inl e2, s2) \<Rightarrow>
                 if message e2 \<noteq> [] \<and> \<not> js_includes (message e2) msgServer
                 then (Inl e2, s2)
                 else statusCall e pid s2))"
proof -
  have l2: "getPrediction_loop e pid (Suc (Suc 0)) s = statusCall e pid s" for s
    by (subst getPrediction_loop.simps)
      (simp add: maxRetries_def statusCall_def split: prod.splits sum.splits)
  have l1: "getPrediction_loop e pid (Suc 0) s =
     (case statusCall e pid s of
        (Inr v, s2) \<Rightarrow> (Inr v, s2)
      | (Inl e2, s2) \<Rightarrow>
          if message e2 \<noteq> [] \<and> \<not> js_includes (message e2) msgServer then (Inl e2, s2)
          else statusCall e pid s2)" for s
    by (subst getPrediction_loop.simps)
      (simp add: maxRetries_def statusCall_def [symmetric] l2 split: prod.splits sum.splits)
  have l0: "getPrediction_loop e pid 0 s =
     (case statusCall e pid s of
        (Inr v, s1) \<Rightarrow> (Inr v, s1)
      | (Inl e1, s1) \<Rightarrow>
          if message e1 \<noteq> [] \<and> \<not> js_includes (message e1) msgServer then (Inl e1, s1)
          else getPrediction_loop e pid (Suc 0) s1)" for s
    by (subst getPrediction_loop.simps)
      (simp add: maxRetries_def statusCall_def [symmetric] split: prod.splits sum.splits)
  from assms show ?thesis
    by (simp add: getPrediction_def l0 l1 split: prod.splits sum.splits)
qed

lemma getPrediction_thrice:
  assumes "pid \<noteq> []"
    and "\<And>s. statusCall e pid s = (Inl err, s @ [q])"
    and "message err = [] \<or> js_includes (message err) msgServer"
  shows "getPrediction e (Some pid) sent = (Inl err, sent @ [q, q, q])"
  using assms(3) by (auto simp: getPrediction_unrolled [OF assms(1)] assms(2))

lemma getPrediction_once:
  assumes "pid \<noteq> []"
    and "statusCall e pid sent = (Inl err, sent @ [q])"
    and "message err \<noteq> [] \<and> \<not> js_includes (message err) msgServer"
  shows "getPrediction e (Some pid) sent = (Inl err, sent @ [q])"
  using assms(3) by (simp add: getPrediction_unrolled [OF assms(1)] assms(2))

text \<open>One attempt on a network that rejects, and on one that answers.\<close>

lemma statusCall_rejected:
  assumes "\<not> falsyString (token e)" and "\<forall>s. network e s = Rejected x"
  shows "\<exists>q. \<forall>s. statusCall e pid s = (Inl (rethrow x), s @ [q])"
proof -
  from assms(1) obtain t where "token e = Some t" "t \<noteq> []"
    by (cases "token e") (auto simp: falsyString_def)
  with assms(2) show ?thesis
    by (simp add: statusCall_def fetchAPI_def authorizationHeader_def requestBody_def)
qed

lemma statusCall_resolved:
  assumes "\<not> falsyString (token e)" and "\<forall>s. network e s = Resolved r"
    and "readResponse e r = Inl err"
  shows "\<exists>q. \<forall>s. statusCall e pid s = (Inl (rethrow err), s @ [q])"
proof -
  from assms(1) obtain t where "token e = Some t" "t \<noteq> []"
    by (cases "token e") (auto simp: falsyString_def)
  with assms(2,3) show ?thesis
    by (simp add: statusCall_def fetchAPI_def authorizationHeader_def requestBody_def)
qed

lemma server_word:
  "js_includes msgTimeout msgServer" "js_includes msgNetwork msgServer"
  "js_includes msgBadJson msgServer"
  by (simp_all add: msgTimeout_def msgNetwork_def msgBadJson_def msgServer_def)

section \<open>The claims\<close>

text \<open>
  C8. A call of \<open>fetchAPI\<close> that requires authorisation while no token is stored (the
  stored value is absent or the empty string) fails at once with the
  authorisation-required error, and the list of issued requests is unchanged.
\<close>

theorem fetchAPI_auth_required:
  assumes "falsyString (token e)"
  shows "fetchAPI e endpoint m data True sent = (Inl (Error msgAuthRequired), sent)"
  using assms
  by (auto simp: fetchAPI_def authorizationHeader_def falsyString_def)

theorem fetchAPI_auth_required_witness:
  "falsyString (token ((scripted [])\<lparr>token := None\<rparr>))
   \<and> fetchAPI ((scripted [])\<lparr>token := None\<rparr>) (ascii ''/api/balance/'') (ascii ''GET'')
         None True []
       = (Inl (Error msgAuthRequired), [])"
  using fetchAPI_auth_required
    [of "(scripted [])\<lparr>token := None\<rparr>" "ascii ''/api/balance/''" "ascii ''GET''" None "[]"]
  by (simp add: falsyString_def)

text \<open>
  C10. With a missing or empty job identifier, \<open>getPrediction\<close> fails at once with the
  error "no prediction identifier was given" and issues no request; the controller's
  \<open>checkPredictionStatus\<close> shows its invalid-identifier message and issues no request
  either.
\<close>

theorem checkPredictionStatus_no_identifier:
  assumes "falsyString ident"
  shows "getPrediction e ident sent = (Inl (Error msgNoIdentifier), sent)
       \<and> checkPredictionStatus e ident (a, sent)
           = (a\<lparr>resultContent := InvalidIdentifier\<rparr>, sent)"
  using assms
  by (auto simp: getPrediction_def checkPredictionStatus_def falsyString_def)

theorem checkPredictionStatus_no_identifier_witness:
  "falsyString (Some [])
   \<and> getPrediction (scripted []) (Some []) [] = (Inl (Error msgNoIdentifier), [])
   \<and> checkPredictionStatus (scripted []) (Some []) (freshApp, [])
       = (freshApp\<lparr>resultContent := InvalidIdentifier\<rparr>, [])"
  using checkPredictionStatus_no_identifier [of "Some []" "scripted []" "[]" freshApp]
  by (simp add: falsyString_def)

text \<open>
  C3. For a payload object that lacks at least one required field,
  \<open>analyzeTransaction\<close> fails with the error that names the first absent field in the
  order of \<open>requiredFields\<close>, and the list of issued requests is unchanged. A payload
  that is no object at all is refused before that, also without a request. Whenever
  \<open>analyzeTransaction\<close> does issue a request, the payload is an object with every
  required field, and the call is then the one call of \<open>fetchAPI\<close> with the payload
  in its envelope.
\<close>

theorem analyzeTransaction_validation:
  "(truthy td \<and> typeofObject td
      \<longrightarrow> (\<forall>field others.
             filter (\<lambda>f. \<not> inObject f td) requiredFields = field # others
             \<longrightarrow> analyzeTransaction e td sent
                 = (Inl (Error (msgMissingField @ field)), sent)))
   \<and> (\<not> truthy td \<or> \<not> typeofObject td
      \<longrightarrow> analyzeTransaction e td sent = (Inl (Error msgNoTransactionData), sent))
   \<and> (snd (analyzeTransaction e td sent) \<noteq> sent
      \<longrightarrow> truthy td \<and> typeofObject td \<and> (\<forall>f \<in> set requiredFields. inObject f td)
        \<and> analyzeTransaction e td sent
            = fetchAPI e (ascii ''/api/predictions/predict'') (ascii ''POST'')
                (Some (JObj [(ascii ''data'', JObj [(ascii ''transaction'', td)])])) True sent)"
proof (intro conjI allI impI)
  fix field others
  assume "truthy td \<and> typeofObject td"
    and "filter (\<lambda>f. \<not> inObject f td) requiredFields = field # others"
  then show "analyzeTransaction e td sent = (Inl (Error (msgMissingField @ field)), sent)"
    by (simp add: analyzeTransaction_def firstMissing_filter)
next
  assume "\<not> truthy td \<or> \<not> typeofObject td"
  then show "analyzeTransaction e td sent = (Inl (Error msgNoTransactionData), sent)"
    by (auto simp: analyzeTransaction_def)
next
  assume issued: "snd (analyzeTransaction e td sent) \<noteq> sent"
  then show object: "truthy td" "typeofObject td"
    by (auto simp: analyzeTransaction_def split: if_splits)
  with issued have none: "firstMissing requiredFields td = None"
    by (cases "firstMissing requiredFields td") (simp_all add: analyzeTransaction_def)
  then have "filter (\<lambda>f. \<not> inObject f td) requiredFields = []"
    by (simp add: firstMissing_filter split: list.splits)
  then show "\<forall>f \<in> set requiredFields. inObject f td"
    by (simp add: filter_empty_conv)
  from object none
  show "analyzeTransaction e td sent
      = fetchAPI e (ascii ''/api/predictions/predict'') (ascii ''POST'')
          (Some (JObj [(ascii ''data'', JObj [(ascii ''transaction'', td)])])) True sent"
    by (simp add: analyzeTransaction_def)
qed

theorem analyzeTransaction_validation_witness:
  "analyzeTransaction (scripted []) partialPayload []
     = (Inl (Error (msgMissingField @ ascii ''origin_account'')), [])
   \<and> analyzeTransaction (scripted []) JNull [] = (Inl (Error msgNoTransactionData), [])
   \<and> snd (analyzeTransaction (scripted []) fullPayload []) \<noteq> []
   \<and> filter (\<lambda>f. \<not> inObject f fullPayload) requiredFields = []"
proof -
  have a: "truthy partialPayload \<and> typeofObject partialPayload"
    by (simp add: partialPayload_def)
  have b: "filter (\<lambda>f. \<not> inObject f partialPayload) requiredFields
      = ascii ''origin_account'' # map ascii [''old_balance_orig'', ''new_balance_orig'',
          ''old_balance_dest'', ''new_balance_dest'', ''hour'', ''day'', ''month'']"
    by (simp add: partialPayload_def requiredFields_def ascii_def)
  have c: "snd (analyzeTransaction (scripted []) fullPayload []) \<noteq> []"
    by (simp add: analyzeTransaction_def fullPayload_def requiredFields_def fetchAPI_def
        authorizationHeader_def requestBody_def scripted_def ascii_def rethrow_def
        TypeError_def)
  from analyzeTransaction_validation [of partialPayload "scripted []" "[]"] a b
  have "analyzeTransaction (scripted []) partialPayload []
     = (Inl (Error (msgMissingField @ ascii ''origin_account'')), [])"
    by blast
  moreover from analyzeTransaction_validation [of JNull "scripted []" "[]"]
  have "analyzeTransaction (scripted []) JNull [] = (Inl (Error msgNoTransactionData), [])"
    by simp
  moreover from analyzeTransaction_validation [of fullPayload "scripted []" "[]"] c
  have "filter (\<lambda>f. \<not> inObject f fullPayload) requiredFields = []"
    by (simp add: filter_empty_conv)
  ultimately show ?thesis using c by blast
qed

text \<open>
  C7. When the status query fails with an error that reads as not-found (its message
  contains "not found"), the controller shows its not-found message and changes nothing
  else: no timer is added, so no further status query is scheduled. This holds for the
  first such response as for any other, whatever the counters are.
\<close>

theorem checkPredictionStatus_not_found:
  assumes "pid \<noteq> []"
    and "getPrediction e (Some pid) sent = (Inl err, sent')"
    and "isNotFound err"
  shows "checkPredictionStatus e (Some pid) (a, sent) = (a\<lparr>resultContent := NotFound\<rparr>, sent')"
  using assms by (simp add: checkPredictionStatus_failure catchBody_def)

theorem checkPredictionStatus_not_found_witness:
  "fst (checkPredictionStatus (scripted [notFoundReply]) (Some (ascii ''J1'')) (freshApp, []))
     = freshApp\<lparr>resultContent := NotFound\<rparr>"
proof -
  obtain r where q: "getPrediction (scripted [notFoundReply]) (Some (ascii ''J1'')) []
      = (Inl (Error (ascii ''Prediction not found'')), [r])"
    by (simp add: api_defs)
  have n: "isNotFound (Error (ascii ''Prediction not found''))"
    by (simp add: isNotFound_def Error_def ascii_def)
  have "ascii ''J1'' \<noteq> []" by (simp add: ascii_def)
  from checkPredictionStatus_not_found [OF this q n, of freshApp]
  show ?thesis by simp
qed

text \<open>
  C1. When the status query succeeds with status pending, the controller shows its
  processing message, increments the pending counter by one (an unset counter counts as
  zero) and schedules the next query of the same job after
  \<open>min (2000 * 1.5 ^ attempt) 10000\<close> milliseconds, where \<open>attempt\<close> is the counter
  before the increment. Nothing bounds the counter: the statement holds at every value.
\<close>

theorem checkPredictionStatus_pending:
  assumes "pid \<noteq> []"
    and "getPrediction e (Some pid) sent = (Inr prediction, sent')"
    and "getProp prediction (ascii ''status'') = Some (JStr (ascii ''pending''))"
  shows "checkPredictionStatus e (Some pid) (a, sent) =
           (a\<lparr>resultContent := Processing,
              predictionRetryCount := Some (orZero (predictionRetryCount a) + 1),
              timers := timers a
                @ [(min (2000 * (3 / 2) ^ orZero (predictionRetryCount a)) 10000,
                    CheckPredictionStatus pid)]\<rparr>, sent')"
  using assms
  by (simp add: checkPredictionStatus_success tryBody_pending pendingDelay_def baseDelay_def
      maxDelay_def)

theorem checkPredictionStatus_pending_witness:
  "fst (checkPredictionStatus (scripted pendingTwice) (Some (ascii ''J1''))
         (checkPredictionStatus (scripted pendingTwice) (Some (ascii ''J1'')) (freshApp, [])))
     = freshApp\<lparr>resultContent := Processing, predictionRetryCount := Some 2,
         timers := [(2000, CheckPredictionStatus (ascii ''J1'')),
                    (3000, CheckPredictionStatus (ascii ''J1''))]\<rparr>"
proof -
  note j = J1_not_empty(1)
  have q1: "getPrediction (scripted pendingTwice) (Some (ascii ''J1'')) []
      = (Inr (JObj [(ascii ''status'', JStr (ascii ''pending''))]),
         [] @ [statusRequest (ascii ''J1'')])"
    by (rule getPrediction_statusReply [OF j]) (simp_all add: pendingTwice_def)
  have q2: "getPrediction (scripted pendingTwice) (Some (ascii ''J1''))
        ([] @ [statusRequest (ascii ''J1'')])
      = (Inr (JObj [(ascii ''status'', JStr (ascii ''pending''))]),
         ([] @ [statusRequest (ascii ''J1'')]) @ [statusRequest (ascii ''J1'')])"
    by (rule getPrediction_statusReply [OF j]) (simp_all add: pendingTwice_def)
  show ?thesis
    using checkPredictionStatus_pending [OF j q1 pending_status, of freshApp]
      checkPredictionStatus_pending [OF j q2 pending_status]
    by (simp add: orZero_def freshApp_def)
qed




text \<open>
  C2. The specification speaks of consecutive failures of a job; the code counts every
  server-internal failure of the controller's lifetime, for all jobs together. After
  three retried failures and one pending reply, the next failure of job J1 is the first
  of its run, and the controller gives up. And once job J1 has been abandoned after
  four failures, the very first failure of another job J2 is not retried at all.
\<close>

theorem server_internal_counterexample:
  "resultContent (fst (pollTimes 4 (scripted failuresAroundPending) (ascii ''J1'')
       (freshApp, []))) = Processing
   \<and> fst (pollTimes 5 (scripted failuresAroundPending) (ascii ''J1'') (freshApp, []))
     = \<lparr>predictionRetryCount = Some 1, predictionErrorRetryCount = Some 4,
        resultContent = TechnicalProblems, balanceLoads = 0,
        timers = [(5000, CheckPredictionStatus (ascii ''J1'')),
                  (5000, CheckPredictionStatus (ascii ''J1'')),
                  (5000, CheckPredictionStatus (ascii ''J1'')),
                  (2000, CheckPredictionStatus (ascii ''J1'')),
                  (100, BindHistoryButton)]\<rparr>
   \<and> fst (checkPredictionStatus (constantly internalError) (Some (ascii ''J2''))
          (pollTimes 4 (constantly internalError) (ascii ''J1'') (freshApp, [])))
     = \<lparr>predictionRetryCount = None, predictionErrorRetryCount = Some 5,
        resultContent = TechnicalProblems, balanceLoads = 0,
        timers = [(5000, CheckPredictionStatus (ascii ''J1'')),
                  (5000, CheckPredictionStatus (ascii ''J1'')),
                  (5000, CheckPredictionStatus (ascii ''J1'')),
                  (100, BindHistoryButton),
                  (100, BindHistoryButton)]\<rparr>"
proof -
  let ?e = "scripted failuresAroundPending"
  let ?c = "constantly internalError"
  let ?J = "ascii ''J1''"
  let ?r = "statusRequest ?J"
  note j = J1_not_empty(1)
  note k = internalError_kind
  have s1: "pollTimes (Suc 0) ?e ?J (freshApp, [])
      = (freshApp\<lparr>resultContent := TemporaryDifficulties,
           predictionErrorRetryCount := Some 1,
           timers := [(5000, CheckPredictionStatus ?J)]\<rparr>, [?r])"
    unfolding pollTimes_Suc pollTimes_0
    by (subst step_internalError [OF j])
      (simp_all add: failuresAroundPending_def catchBody_server_internal [OF k] orZero_def
        freshApp_def)
  have s2: "pollTimes (Suc (Suc 0)) ?e ?J (freshApp, [])
      = (freshApp\<lparr>resultContent := TemporaryDifficulties,
           predictionErrorRetryCount := Some 2,
           timers := [(5000, CheckPredictionStatus ?J), (5000, CheckPredictionStatus ?J)]\<rparr>,
         [?r, ?r])"
    unfolding pollTimes_Suc [of "Suc 0"] s1
    by (subst step_internalError [OF j])
      (simp_all add: failuresAroundPending_def catchBody_server_internal [OF k] orZero_def
        freshApp_def)
  have s3: "pollTimes (Suc (Suc (Suc 0))) ?e ?J (freshApp, [])
      = (freshApp\<lparr>resultContent := TemporaryDifficulties,
           predictionErrorRetryCount := Some 3,
           timers := [(5000, CheckPredictionStatus ?J), (5000, CheckPredictionStatus ?J),
                      (5000, CheckPredictionStatus ?J)]\<rparr>,
         [?r, ?r, ?r])"
    unfolding pollTimes_Suc [of "Suc (Suc 0)"] s2
    by (subst step_internalError [OF j])
      (simp_all add: failuresAroundPending_def catchBody_server_internal [OF k] orZero_def
        freshApp_def)
  have s4: "pollTimes (Suc (Suc (Suc (Suc 0)))) ?e ?J (freshApp, [])
      = (freshApp\<lparr>resultContent := Processing,
           predictionRetryCount := Some 1,
           predictionErrorRetryCount := Some 3,
           timers := [(5000, CheckPredictionStatus ?J), (5000, CheckPredictionStatus ?J),
                      (5000, CheckPredictionStatus ?J), (2000, CheckPredictionStatus ?J)]\<rparr>,
         [?r, ?r, ?r, ?r])"
    unfolding pollTimes_Suc [of "Suc (Suc (Suc 0))"] s3
    by (subst step_pending [OF j])
      (simp_all add: failuresAroundPending_def orZero_def freshApp_def pendingDelay_values)
  have s5: "pollTimes (Suc (Suc (Suc (Suc (Suc 0))))) ?e ?J (freshApp, [])
      = (freshApp\<lparr>resultContent := TechnicalProblems,
           predictionRetryCount := Some 1,
           predictionErrorRetryCount := Some 4,
           timers := [(5000, CheckPredictionStatus ?J), (5000, CheckPredictionStatus ?J),
                      (5000, CheckPredictionStatus ?J), (2000, CheckPredictionStatus ?J),
                      (100, BindHistoryButton)]\<rparr>,
         [?r, ?r, ?r, ?r, ?r])"
    unfolding pollTimes_Suc [of "Suc (Suc (Suc (Suc 0)))"] s4
    by (subst step_internalError [OF j])
      (simp_all add: failuresAroundPending_def catchBody_server_internal [OF k] orZero_def
        freshApp_def)
  have c1: "pollTimes (Suc 0) ?c ?J (freshApp, [])
      = (freshApp\<lparr>resultContent := TemporaryDifficulties,
           predictionErrorRetryCount := Some 1,
           timers := [(5000, CheckPredictionStatus ?J)]\<rparr>, [?r])"
    unfolding pollTimes_Suc pollTimes_0
    by (simp add: step_always_internalError [OF j] catchBody_server_internal [OF k] orZero_def
        freshApp_def)
  have c2: "pollTimes (Suc (Suc 0)) ?c ?J (freshApp, [])
      = (freshApp\<lparr>resultContent := TemporaryDifficulties,
           predictionErrorRetryCount := Some 2,
           timers := [(5000, CheckPredictionStatus ?J), (5000, CheckPredictionStatus ?J)]\<rparr>,
         [?r, ?r])"
    unfolding pollTimes_Suc [of "Suc 0"] c1
    by (simp add: step_always_internalError [OF j] catchBody_server_internal [OF k] orZero_def
        freshApp_def)
  have c3: "pollTimes (Suc (Suc (Suc 0))) ?c ?J (freshApp, [])
      = (freshApp\<lparr>resultContent := TemporaryDifficulties,
           predictionErrorRetryCount := Some 3,
           timers := [(5000, CheckPredictionStatus ?J), (5000, CheckPredictionStatus ?J),
                      (5000, CheckPredictionStatus ?J)]\<rparr>,
         [?r, ?r, ?r])"
    unfolding pollTimes_Suc [of "Suc (Suc 0)"] c2
    by (simp add: step_always_internalError [OF j] catchBody_server_internal [OF k] orZero_def
        freshApp_def)
  have c4: "pollTimes (Suc (Suc (Suc (Suc 0)))) ?c ?J (freshApp, [])
      = (freshApp\<lparr>resultContent := TechnicalProblems,
           predictionErrorRetryCount := Some 4,
           timers := [(5000, CheckPredictionStatus ?J), (5000, CheckPredictionStatus ?J),
                      (5000, CheckPredictionStatus ?J), (100, BindHistoryButton)]\<rparr>,
         [?r, ?r, ?r, ?r])"
    unfolding pollTimes_Suc [of "Suc (Suc (Suc 0))"] c3
    by (simp add: step_always_internalError [OF j] catchBody_server_internal [OF k] orZero_def
        freshApp_def)
  have c5: "checkPredictionStatus ?c (Some (ascii ''J2''))
        (pollTimes (Suc (Suc (Suc (Suc 0)))) ?c ?J (freshApp, []))
      = (freshApp\<lparr>resultContent := TechnicalProblems,
           predictionErrorRetryCount := Some 5,
           timers := [(5000, CheckPredictionStatus ?J), (5000, CheckPredictionStatus ?J),
                      (5000, CheckPredictionStatus ?J), (100, BindHistoryButton),
                      (100, BindHistoryButton)]\<rparr>,
         [?r, ?r, ?r, ?r, statusRequest (ascii ''J2'')])"
    unfolding c4
    by (simp add: step_always_internalError [OF J1_not_empty(2)]
        catchBody_server_internal [OF k] orZero_def freshApp_def)
  have four: "pollTimes 4 e p st = pollTimes (Suc (Suc (Suc (Suc 0)))) e p st"
    and five: "pollTimes 5 e p st = pollTimes (Suc (Suc (Suc (Suc (Suc 0))))) e p st"
    for e p st
    by (simp_all add: eval_nat_numeral)
  show ?thesis
    unfolding four five s4 s5 c5 by (simp add: freshApp_def)
qed

text \<open>
  C2, as the code has it. A server-internal failure of the status query increments the
  controller's error counter, which is one for all jobs and is never reset. While the
  incremented counter is at most 3 the controller stays in polling and schedules the
  next query after a fixed 5000 milliseconds; once it exceeds 3 the controller shows
  its technical-problems message and schedules no further query. On a controller whose
  counter is still unset, four server-internal failures in a row therefore give three
  retries and then the abandonment.
\<close>

theorem checkPredictionStatus_server_internal:
  "(pid \<noteq> [] \<and> getPrediction e (Some pid) sent = (Inl err, sent')
      \<and> \<not> isNotFound err \<and> isServerInternal err
     \<longrightarrow> checkPredictionStatus e (Some pid) (a, sent) =
          (if orZero (predictionErrorRetryCount a) + 1 \<le> 3
           then a\<lparr>resultContent := TemporaryDifficulties,
                  predictionErrorRetryCount := Some (orZero (predictionErrorRetryCount a) + 1),
                  timers := timers a @ [(5000, CheckPredictionStatus pid)]\<rparr>
           else a\<lparr>resultContent := TechnicalProblems,
                  predictionErrorRetryCount := Some (orZero (predictionErrorRetryCount a) + 1),
                  timers := timers a @ [(100, BindHistoryButton)]\<rparr>, sent'))
   \<and> (pid \<noteq> [] \<and> predictionErrorRetryCount a = None
      \<and> (\<forall>s. \<exists>x s'. getPrediction e (Some pid) s = (Inl x, s')
                \<and> \<not> isNotFound x \<and> isServerInternal x)
     \<longrightarrow> fst (pollTimes 4 e pid (a, sent)) =
          a\<lparr>resultContent := TechnicalProblems,
            predictionErrorRetryCount := Some 4,
            timers := timers a @ [(5000, CheckPredictionStatus pid),
                                  (5000, CheckPredictionStatus pid),
                                  (5000, CheckPredictionStatus pid),
                                  (100, BindHistoryButton)]\<rparr>)"
proof (intro conjI impI)
  assume "pid \<noteq> [] \<and> getPrediction e (Some pid) sent = (Inl err, sent')
      \<and> \<not> isNotFound err \<and> isServerInternal err"
  then show "checkPredictionStatus e (Some pid) (a, sent) =
          (if orZero (predictionErrorRetryCount a) + 1 \<le> 3
           then a\<lparr>resultContent := TemporaryDifficulties,
                  predictionErrorRetryCount := Some (orZero (predictionErrorRetryCount a) + 1),
                  timers := timers a @ [(5000, CheckPredictionStatus pid)]\<rparr>
           else a\<lparr>resultContent := TechnicalProblems,
                  predictionErrorRetryCount := Some (orZero (predictionErrorRetryCount a) + 1),
                  timers := timers a @ [(100, BindHistoryButton)]\<rparr>, sent')"
    by (simp add: checkPredictionStatus_failure catchBody_server_internal)
next
  assume h: "pid \<noteq> [] \<and> predictionErrorRetryCount a = None
      \<and> (\<forall>s. \<exists>x s'. getPrediction e (Some pid) s = (Inl x, s')
                \<and> \<not> isNotFound x \<and> isServerInternal x)"
  define F where "F = (\<lambda>b::app.
      if orZero (predictionErrorRetryCount b) + 1 \<le> 3
      then b\<lparr>resultContent := TemporaryDifficulties,
             predictionErrorRetryCount := Some (orZero (predictionErrorRetryCount b) + 1),
             timers := timers b @ [(5000, CheckPredictionStatus pid)]\<rparr>
      else b\<lparr>resultContent := TechnicalProblems,
             predictionErrorRetryCount := Some (orZero (predictionErrorRetryCount b) + 1),
             timers := timers b @ [(100, BindHistoryButton)]\<rparr>)"
  have step: "\<exists>s'. checkPredictionStatus e (Some pid) (b, s) = (F b, s')" for b s
  proof -
    from h obtain x s' where "getPrediction e (Some pid) s = (Inl x, s')"
      and "\<not> isNotFound x" and "isServerInternal x"
      by blast
    with h have "checkPredictionStatus e (Some pid) (b, s) = (F b, s')"
      by (simp add: checkPredictionStatus_failure catchBody_server_internal F_def)
    then show ?thesis ..
  qed
  obtain s1 where 1: "checkPredictionStatus e (Some pid) (a, sent) = (F a, s1)"
    using step by blast
  obtain s2 where 2: "checkPredictionStatus e (Some pid) (F a, s1) = (F (F a), s2)"
    using step by blast
  obtain s3 where 3: "checkPredictionStatus e (Some pid) (F (F a), s2) = (F (F (F a)), s3)"
    using step by blast
  obtain s4 where 4:
    "checkPredictionStatus e (Some pid) (F (F (F a)), s3) = (F (F (F (F a))), s4)"
    using step by blast
  have "pollTimes 4 e pid (a, sent) = pollTimes (Suc (Suc (Suc (Suc 0)))) e pid (a, sent)"
    by (simp add: eval_nat_numeral)
  also have "\<dots> = (F (F (F (F a))), s4)"
    by (simp only: pollTimes_Suc pollTimes_0 1 2 3 4)
  finally have "fst (pollTimes 4 e pid (a, sent)) = F (F (F (F a)))"
    by simp
  also from h have "\<dots> = a\<lparr>resultContent := TechnicalProblems,
            predictionErrorRetryCount := Some 4,
            timers := timers a @ [(5000, CheckPredictionStatus pid),
                                  (5000, CheckPredictionStatus pid),
                                  (5000, CheckPredictionStatus pid),
                                  (100, BindHistoryButton)]\<rparr>"
    by (simp add: F_def orZero_def)
  finally show "fst (pollTimes 4 e pid (a, sent)) =
          a\<lparr>resultContent := TechnicalProblems,
            predictionErrorRetryCount := Some 4,
            timers := timers a @ [(5000, CheckPredictionStatus pid),
                                  (5000, CheckPredictionStatus pid),
                                  (5000, CheckPredictionStatus pid),
                                  (100, BindHistoryButton)]\<rparr>" .
qed

theorem checkPredictionStatus_server_internal_witness:
  "fst (checkPredictionStatus (constantly internalError) (Some (ascii ''J1'')) (freshApp, []))
     = freshApp\<lparr>resultContent := TemporaryDifficulties,
         predictionErrorRetryCount := Some 1,
         timers := [(5000, CheckPredictionStatus (ascii ''J1''))]\<rparr>
   \<and> fst (pollTimes 4 (constantly internalError) (ascii ''J1'') (freshApp, []))
     = freshApp\<lparr>resultContent := TechnicalProblems,
         predictionErrorRetryCount := Some 4,
         timers := [(5000, CheckPredictionStatus (ascii ''J1'')),
                    (5000, CheckPredictionStatus (ascii ''J1'')),
                    (5000, CheckPredictionStatus (ascii ''J1'')),
                    (100, BindHistoryButton)]\<rparr>"
proof -
  let ?e = "constantly internalError"
  let ?J = "ascii ''J1''"
  note j = J1_not_empty(1)
  have always: "\<forall>s. \<exists>x s'. getPrediction ?e (Some ?J) s = (Inl x, s')
      \<and> \<not> isNotFound x \<and> isServerInternal x"
    using getPrediction_constantly_internalError [OF j] internalError_kind by blast
  have first: "getPrediction ?e (Some ?J) []
      = (Inl (Error (ascii ''Internal Server Error'')), [] @ [statusRequest ?J])"
    by (rule getPrediction_constantly_internalError [OF j])
  have fresh: "predictionErrorRetryCount freshApp = None" "timers freshApp = []"
    by (simp_all add: freshApp_def)
  from checkPredictionStatus_server_internal
    [of ?J ?e "[]" "Error (ascii ''Internal Server Error'')" "[] @ [statusRequest ?J]"
      freshApp]
    j first internalError_kind always fresh
  show ?thesis
    by (simp add: orZero_def)
qed

text \<open>
  C5. The specification has every successful query reset the error counter; the code
  never resets it. After one server-internal failure and then a pending reply, the error
  counter is still 1, and the pending counter, unset before the reply, is 1.
\<close>

theorem counter_reset_counterexample:
  "predictionErrorRetryCount
       (fst (pollTimes 2 (scripted failureThenPending) (ascii ''J1'') (freshApp, []))) = Some 1
   \<and> predictionRetryCount
       (fst (pollTimes 1 (scripted failureThenPending) (ascii ''J1'') (freshApp, []))) = None
   \<and> predictionRetryCount
       (fst (pollTimes 2 (scripted failureThenPending) (ascii ''J1'') (freshApp, []))) = Some 1"
proof -
  let ?e = "scripted failureThenPending"
  let ?J = "ascii ''J1''"
  let ?r = "statusRequest ?J"
  note j = J1_not_empty(1)
  note k = internalError_kind
  have s1: "pollTimes (Suc 0) ?e ?J (freshApp, [])
      = (freshApp\<lparr>resultContent := TemporaryDifficulties,
           predictionErrorRetryCount := Some 1,
           timers := [(5000, CheckPredictionStatus ?J)]\<rparr>, [?r])"
    unfolding pollTimes_Suc pollTimes_0
    by (subst step_internalError [OF j])
      (simp_all add: failureThenPending_def catchBody_server_internal [OF k] orZero_def
        freshApp_def)
  have s2: "pollTimes (Suc (Suc 0)) ?e ?J (freshApp, [])
      = (freshApp\<lparr>resultContent := Processing,
           predictionRetryCount := Some 1,
           predictionErrorRetryCount := Some 1,
           timers := [(5000, CheckPredictionStatus ?J), (2000, CheckPredictionStatus ?J)]\<rparr>,
         [?r, ?r])"
    unfolding pollTimes_Suc [of "Suc 0"] s1
    by (subst step_pending [OF j])
      (simp_all add: failureThenPending_def orZero_def freshApp_def pendingDelay_values)
  have one: "pollTimes 1 ?e ?J (freshApp, []) = pollTimes (Suc 0) ?e ?J (freshApp, [])"
    and two: "pollTimes 2 ?e ?J (freshApp, []) = pollTimes (Suc (Suc 0)) ?e ?J (freshApp, [])"
    by (simp_all add: eval_nat_numeral)
  show ?thesis
    unfolding one two s1 s2 by (simp add: freshApp_def)
qed

text \<open>
  C5, as the code has it. The two counters are separate fields. A successful status
  query leaves the error counter as it was (it is never reset); it increments the
  pending counter by one when the status is pending and leaves it as it was otherwise.
  A failed query leaves the pending counter as it was, and increments the error counter
  by one exactly when the failure is server-internal.
\<close>

theorem checkPredictionStatus_counters:
  "(pid \<noteq> [] \<and> getPrediction e (Some pid) sent = (Inr p, sent')
     \<longrightarrow> predictionErrorRetryCount (fst (checkPredictionStatus e (Some pid) (a, sent)))
           = predictionErrorRetryCount a
       \<and> predictionRetryCount (fst (checkPredictionStatus e (Some pid) (a, sent)))
           = (if getProp p (ascii ''status'') = Some (JStr (ascii ''pending''))
              then Some (orZero (predictionRetryCount a) + 1)
              else predictionRetryCount a))
   \<and> (pid \<noteq> [] \<and> getPrediction e (Some pid) sent = (Inl err, sent')
     \<longrightarrow> predictionRetryCount (fst (checkPredictionStatus e (Some pid) (a, sent)))
           = predictionRetryCount a
       \<and> predictionErrorRetryCount (fst (checkPredictionStatus e (Some pid) (a, sent)))
           = (if \<not> isNotFound err \<and> isServerInternal err
              then Some (orZero (predictionErrorRetryCount a) + 1)
              else predictionErrorRetryCount a))"
proof (intro conjI impI)
  assume h: "pid \<noteq> [] \<and> getPrediction e (Some pid) sent = (Inr p, sent')"
  then have step: "checkPredictionStatus e (Some pid) (a, sent)
      = (case tryBody pid p a of
           (Some x, a') \<Rightarrow> catchBody pid x a'
         | (None, a') \<Rightarrow> a', sent')"
    by (simp add: checkPredictionStatus_success)
  show "predictionErrorRetryCount (fst (checkPredictionStatus e (Some pid) (a, sent)))
      = predictionErrorRetryCount a"
  proof (cases "getProp p (ascii ''status'') = Some (JStr (ascii ''pending''))")
    case True
    then show ?thesis by (simp add: step tryBody_pending)
  next
    case False
    obtain r a' where t: "tryBody pid p a = (r, a')" by (cases "tryBody pid p a")
    from tryBody_counters [OF False t]
    have same: "predictionErrorRetryCount a' = predictionErrorRetryCount a" by simp
    show ?thesis
    proof (cases r)
      case None
      with t same show ?thesis by (simp add: step)
    next
      case (Some x)
      with t have "\<not> isNotFound x \<and> \<not> isServerInternal x"
        using tryBody_error by blast
      with t Some same show ?thesis by (simp add: step catchBody_other)
    qed
  qed
  show "predictionRetryCount (fst (checkPredictionStatus e (Some pid) (a, sent)))
      = (if getProp p (ascii ''status'') = Some (JStr (ascii ''pending''))
         then Some (orZero (predictionRetryCount a) + 1)
         else predictionRetryCount a)"
  proof (cases "getProp p (ascii ''status'') = Some (JStr (ascii ''pending''))")
    case True
    then show ?thesis by (simp add: step tryBody_pending)
  next
    case False
    obtain r a' where t: "tryBody pid p a = (r, a')" by (cases "tryBody pid p a")
    from tryBody_counters [OF False t]
    have same: "predictionRetryCount a' = predictionRetryCount a" by simp
    from t same False show ?thesis
      by (cases r) (simp_all add: step catchBody_pending_counter)
  qed
next
  assume h: "pid \<noteq> [] \<and> getPrediction e (Some pid) sent = (Inl err, sent')"
  then have step: "checkPredictionStatus e (Some pid) (a, sent) = (catchBody pid err a, sent')"
    by (simp add: checkPredictionStatus_failure)
  show "predictionRetryCount (fst (checkPredictionStatus e (Some pid) (a, sent)))
      = predictionRetryCount a"
    by (simp add: step catchBody_pending_counter)
  show "predictionErrorRetryCount (fst (checkPredictionStatus e (Some pid) (a, sent)))
      = (if \<not> isNotFound err \<and> isServerInternal err
         then Some (orZero (predictionErrorRetryCount a) + 1)
         else predictionErrorRetryCount a)"
    by (simp add: step catchBody_def Let_def)
qed

theorem checkPredictionStatus_counters_witness:
  "predictionErrorRetryCount (fst (checkPredictionStatus (scripted failureThenPending)
       (Some (ascii ''J1'')) (freshApp, []))) = Some 1
   \<and> predictionRetryCount (fst (checkPredictionStatus (scripted failureThenPending)
       (Some (ascii ''J1'')) (freshApp, []))) = None
   \<and> predictionErrorRetryCount (fst (checkPredictionStatus (scripted failureThenPending)
       (Some (ascii ''J1''))
       (freshApp\<lparr>predictionErrorRetryCount := Some 1\<rparr>, [statusRequest (ascii ''J1'')])))
       = Some 1
   \<and> predictionRetryCount (fst (checkPredictionStatus (scripted failureThenPending)
       (Some (ascii ''J1''))
       (freshApp\<lparr>predictionErrorRetryCount := Some 1\<rparr>, [statusRequest (ascii ''J1'')])))
       = Some 1"
proof -
  let ?e = "scripted failureThenPending"
  let ?J = "ascii ''J1''"
  note j = J1_not_empty(1)
  have q1: "getPrediction ?e (Some ?J) []
      = (Inl (Error (ascii ''Internal Server Error'')), [] @ [statusRequest ?J])"
    by (rule getPrediction_internalError [OF j]) (simp_all add: failureThenPending_def)
  have q2: "getPrediction ?e (Some ?J) [statusRequest ?J]
      = (Inr (JObj [(ascii ''status'', JStr (ascii ''pending''))]),
         [statusRequest ?J] @ [statusRequest ?J])"
    by (rule getPrediction_statusReply [OF j]) (simp_all add: failureThenPending_def)
  have fresh: "predictionErrorRetryCount freshApp = None" "predictionRetryCount freshApp = None"
    by (simp_all add: freshApp_def)
  from checkPredictionStatus_counters
    [of ?J ?e "[]" "JNull" "[] @ [statusRequest ?J]" freshApp
      "Error (ascii ''Internal Server Error'')"]
    checkPredictionStatus_counters
    [of ?J ?e "[statusRequest ?J]" "JObj [(ascii ''status'', JStr (ascii ''pending''))]"
      "[statusRequest ?J] @ [statusRequest ?J]"
      "freshApp\<lparr>predictionErrorRetryCount := Some 1\<rparr>" "Error (ascii ''X'')"]
    j q1 q2 internalError_kind fresh
  show ?thesis
    by (simp add: orZero_def)
qed

text \<open>
  C9. The specification gives each job counters of its own; the code keeps both
  counters on the one controller. Job J2 polled first gets a delay of 2000 milliseconds; polled after
  one pending reply for job J1 it gets 3000, computed from the counter that the poll of
  J1 incremented.
\<close>

theorem shared_counter_counterexample:
  "timers (fst (checkPredictionStatus (constantly (statusReply ''pending''))
       (Some (ascii ''J2'')) (freshApp, [])))
     = [(2000, CheckPredictionStatus (ascii ''J2''))]
   \<and> timers (fst (checkPredictionStatus (constantly (statusReply ''pending''))
       (Some (ascii ''J2''))
       (checkPredictionStatus (constantly (statusReply ''pending''))
          (Some (ascii ''J1'')) (freshApp, []))))
     = [(2000, CheckPredictionStatus (ascii ''J1'')),
        (3000, CheckPredictionStatus (ascii ''J2''))]"
proof -
  let ?e = "constantly (statusReply ''pending'')"
  have step: "checkPredictionStatus ?e (Some pid) (a, s)
      = (a\<lparr>resultContent := Processing,
            predictionRetryCount := Some (orZero (predictionRetryCount a) + 1),
            timers := timers a
              @ [(pendingDelay (orZero (predictionRetryCount a)),
                  CheckPredictionStatus pid)]\<rparr>, s @ [statusRequest pid])"
    if "pid \<noteq> []" for pid a s
    using that
    by (simp add: checkPredictionStatus_success [OF _ getPrediction_constantly_statusReply]
        tryBody_pending)
  show ?thesis
    by (simp add: step J1_not_empty orZero_def freshApp_def pendingDelay_values)
qed

text \<open>
  C9, as the code has it. The pending counter and the error counter are fields of the
  one controller and are shared by all jobs: a pending reply for any job increments the
  pending counter and takes its delay from it, so that after a pending reply for one
  job the delay of another job is the next one of the schedule; and server-internal
  failures of different jobs add up in the one error counter.
\<close>

theorem counters_shared_by_jobs:
  "(pidA \<noteq> [] \<and> pidB \<noteq> []
      \<and> getPrediction e (Some pidA) sent = (Inr pa, sent1)
      \<and> getProp pa (ascii ''status'') = Some (JStr (ascii ''pending''))
      \<and> getPrediction e (Some pidB) sent1 = (Inr pb, sent2)
      \<and> getProp pb (ascii ''status'') = Some (JStr (ascii ''pending''))
     \<longrightarrow> checkPredictionStatus e (Some pidB) (checkPredictionStatus e (Some pidA) (a, sent))
         = (a\<lparr>resultContent := Processing,
              predictionRetryCount := Some (orZero (predictionRetryCount a) + 2),
              timers := timers a
                @ [(pendingDelay (orZero (predictionRetryCount a)),
                    CheckPredictionStatus pidA),
                   (pendingDelay (orZero (predictionRetryCount a) + 1),
                    CheckPredictionStatus pidB)]\<rparr>, sent2))
   \<and> (pidA \<noteq> [] \<and> pidB \<noteq> []
      \<and> getPrediction e (Some pidA) sent = (Inl ea, sent1)
      \<and> \<not> isNotFound ea \<and> isServerInternal ea
      \<and> getPrediction e (Some pidB) sent1 = (Inl eb, sent2)
      \<and> \<not> isNotFound eb \<and> isServerInternal eb
     \<longrightarrow> predictionErrorRetryCount
           (fst (checkPredictionStatus e (Some pidB)
              (checkPredictionStatus e (Some pidA) (a, sent))))
         = Some (orZero (predictionErrorRetryCount a) + 2))"
proof (intro conjI impI)
  assume h: "pidA \<noteq> [] \<and> pidB \<noteq> []
      \<and> getPrediction e (Some pidA) sent = (Inr pa, sent1)
      \<and> getProp pa (ascii ''status'') = Some (JStr (ascii ''pending''))
      \<and> getPrediction e (Some pidB) sent1 = (Inr pb, sent2)
      \<and> getProp pb (ascii ''status'') = Some (JStr (ascii ''pending''))"
  then show "checkPredictionStatus e (Some pidB)
        (checkPredictionStatus e (Some pidA) (a, sent))
      = (a\<lparr>resultContent := Processing,
           predictionRetryCount := Some (orZero (predictionRetryCount a) + 2),
           timers := timers a
             @ [(pendingDelay (orZero (predictionRetryCount a)),
                 CheckPredictionStatus pidA),
                (pendingDelay (orZero (predictionRetryCount a) + 1),
                 CheckPredictionStatus pidB)]\<rparr>, sent2)"
    by (simp add: checkPredictionStatus_success tryBody_pending orZero_def)
next
  assume h: "pidA \<noteq> [] \<and> pidB \<noteq> []
      \<and> getPrediction e (Some pidA) sent = (Inl ea, sent1)
      \<and> \<not> isNotFound ea \<and> isServerInternal ea
      \<and> getPrediction e (Some pidB) sent1 = (Inl eb, sent2)
      \<and> \<not> isNotFound eb \<and> isServerInternal eb"
  then show "predictionErrorRetryCount
        (fst (checkPredictionStatus e (Some pidB)
           (checkPredictionStatus e (Some pidA) (a, sent))))
      = Some (orZero (predictionErrorRetryCount a) + 2)"
    by (simp add: checkPredictionStatus_failure catchBody_server_internal orZero_def)
qed

theorem counters_shared_by_jobs_witness:
  "checkPredictionStatus (constantly (statusReply ''pending'')) (Some (ascii ''J2''))
       (checkPredictionStatus (constantly (statusReply ''pending''))
          (Some (ascii ''J1'')) (freshApp, []))
     = (freshApp\<lparr>resultContent := Processing, predictionRetryCount := Some 2,
          timers := [(2000, CheckPredictionStatus (ascii ''J1'')),
                     (3000, CheckPredictionStatus (ascii ''J2''))]\<rparr>,
        [statusRequest (ascii ''J1''), statusRequest (ascii ''J2'')])
   \<and> predictionErrorRetryCount
       (fst (checkPredictionStatus (constantly internalError) (Some (ascii ''J2''))
          (checkPredictionStatus (constantly internalError)
             (Some (ascii ''J1'')) (freshApp, [])))) = Some 2"
proof -
  let ?p = "constantly (statusReply ''pending'')"
  let ?f = "constantly internalError"
  let ?st = "JObj [(ascii ''status'', JStr (ascii ''pending''))]"
  let ?ise = "Error (ascii ''Internal Server Error'')"
  let ?r1 = "statusRequest (ascii ''J1'')"
  let ?r2 = "statusRequest (ascii ''J2'')"
  note j = J1_not_empty
  have p1: "getPrediction ?p (Some (ascii ''J1'')) [] = (Inr ?st, [] @ [?r1])"
    by (rule getPrediction_constantly_statusReply [OF j(1)])
  have p2: "getPrediction ?p (Some (ascii ''J2'')) ([] @ [?r1])
      = (Inr ?st, ([] @ [?r1]) @ [?r2])"
    by (rule getPrediction_constantly_statusReply [OF j(2)])
  have f1: "getPrediction ?f (Some (ascii ''J1'')) [] = (Inl ?ise, [] @ [?r1])"
    by (rule getPrediction_constantly_internalError [OF j(1)])
  have f2: "getPrediction ?f (Some (ascii ''J2'')) ([] @ [?r1])
      = (Inl ?ise, ([] @ [?r1]) @ [?r2])"
    by (rule getPrediction_constantly_internalError [OF j(2)])
  have fresh: "predictionErrorRetryCount freshApp = None" "predictionRetryCount freshApp = None"
    "timers freshApp = []"
    by (simp_all add: freshApp_def)
  from counters_shared_by_jobs
    [of "ascii ''J1''" "ascii ''J2''" ?p "[]" ?st "[] @ [?r1]" ?st "([] @ [?r1]) @ [?r2]"
      freshApp ?ise ?ise]
    j p1 p2 pending_status
  have a: "checkPredictionStatus ?p (Some (ascii ''J2''))
       (checkPredictionStatus ?p (Some (ascii ''J1'')) (freshApp, []))
     = (freshApp\<lparr>resultContent := Processing, predictionRetryCount := Some 2,
          timers := [(2000, CheckPredictionStatus (ascii ''J1'')),
                     (3000, CheckPredictionStatus (ascii ''J2''))]\<rparr>, [?r1, ?r2])"
    by (simp add: fresh orZero_def pendingDelay_values numeral_2_eq_2 [symmetric])
  from counters_shared_by_jobs
    [of "ascii ''J1''" "ascii ''J2''" ?f "[]" ?st "[] @ [?r1]" ?st "([] @ [?r1]) @ [?r2]"
      freshApp ?ise ?ise]
    j f1 f2 internalError_kind
  have b: "predictionErrorRetryCount
       (fst (checkPredictionStatus ?f (Some (ascii ''J2''))
          (checkPredictionStatus ?f (Some (ascii ''J1'')) (freshApp, [])))) = Some 2"
    by (simp add: fresh orZero_def)
  from a b show ?thesis by simp
qed

text \<open>
  C6. The specification has no retries below the Poller; \<open>getPrediction\<close> has a
  retry loop of its own. When the fallback \<open>AbortController\<close> ends every request, or
  when the connection fails every time with the message "Failed to fetch", one call of
  \<open>getPrediction\<close> issues three requests before it throws.
\<close>

theorem getPrediction_retries_counterexample:
  "getPrediction (constantly controllerAborted) (Some (ascii ''J1'')) []
     = (Inl (Error msgTimeout),
        [statusRequest (ascii ''J1''), statusRequest (ascii ''J1''),
         statusRequest (ascii ''J1'')])
   \<and> getPrediction (scripted []) (Some (ascii ''J1'')) []
     = (Inl (Error msgNetwork),
        [statusRequest (ascii ''J1''), statusRequest (ascii ''J1''),
         statusRequest (ascii ''J1'')])"
  by (simp add: api_defs controllerAborted_def statusRequest_def msgTimeout_def msgNetwork_def)

text \<open>
  C6, as the code has it. \<open>fetchAPI\<close> issues at most one request in a call and never
  repeats it. \<open>getPrediction\<close> does retry: a call makes at most three requests; after
  a failed first or second attempt it tries again exactly when the message of the error
  is empty or contains the word for server, and throws the error at once otherwise; the
  outcome of the third attempt is final. So a failure that stays is queried three times
  when it is a rejection named \<open>AbortError\<close>, a \<open>TypeError\<close> whose message contains
  "Failed to fetch", a body of a successful JSON response that cannot be decoded, or a
  rejection with an empty message; and a rejection that \<open>fetchAPI\<close> does not rewrite,
  with a message that is not empty and lacks the word (the \<open>TimeoutError\<close> of
  \<open>AbortSignal.timeout\<close> is one), is thrown after one request. An error that
  \<open>getPrediction\<close> throws and that reads neither as not-found nor as server-internal
  is shown by the controller, which then changes nothing else: no timer is added, so
  the polling of the job stops.
\<close>

theorem retry_layers:
  "(snd (fetchAPI e endpoint m data auth sent) = sent
      \<or> (\<exists>q. snd (fetchAPI e endpoint m data auth sent) = sent @ [q]))
   \<and> length (snd (getPrediction e ident sent)) \<le> length sent + 3
   \<and> (pid \<noteq> []
     \<longrightarrow> getPrediction e (Some pid) sent =
         (case statusCall e pid sent of
            (Inr v, s1) \<Rightarrow> (Inr v, s1)
          | (Inl e1, s1) \<Rightarrow>
              if message e1 \<noteq> [] \<and> \<not> js_includes (message e1) msgServer then (Inl e1, s1)
              else
                (case statusCall e pid s1 of
                   (Inr v, s2) \<Rightarrow> (Inr v, s2)
                 | (Inl e2, s2) \<Rightarrow>
                     if message e2 \<noteq> [] \<and> \<not> js_includes (message e2) msgServer
                     then (Inl e2, s2)
                     else statusCall e pid s2)))
   \<and> (pid \<noteq> [] \<and> \<not> falsyString (token e) \<and> (\<forall>s. network e s = Rejected x)
      \<and> name x = ascii ''AbortError''
     \<longrightarrow> (\<exists>q. getPrediction e (Some pid) sent = (Inl (Error msgTimeout), sent @ [q, q, q])))
   \<and> (pid \<noteq> [] \<and> \<not> falsyString (token e) \<and> (\<forall>s. network e s = Rejected x)
      \<and> name x = ascii ''TypeError'' \<and> js_includes (message x) (ascii ''Failed to fetch'')
     \<longrightarrow> (\<exists>q. getPrediction e (Some pid) sent = (Inl (Error msgNetwork), sent @ [q, q, q])))
   \<and> (pid \<noteq> [] \<and> \<not> falsyString (token e) \<and> (\<forall>s. network e s = Resolved r)
      \<and> ok r \<and> contentType r = Some c \<and> js_includes c (ascii ''application/json'')
      \<and> jsonBody r = Inl parseError
     \<longrightarrow> (\<exists>q. getPrediction e (Some pid) sent = (Inl (Error msgBadJson), sent @ [q, q, q])))
   \<and> (pid \<noteq> [] \<and> \<not> falsyString (token e) \<and> (\<forall>s. network e s = Rejected x)
      \<and> message x = []
     \<longrightarrow> (\<exists>q y. getPrediction e (Some pid) sent = (Inl y, sent @ [q, q, q])))
   \<and> (pid \<noteq> [] \<and> \<not> falsyString (token e) \<and> (\<forall>s. network e s = Rejected x)
      \<and> name x \<noteq> ascii ''AbortError''
      \<and> \<not> (name x = ascii ''TypeError''
             \<and> js_includes (message x) (ascii ''Failed to fetch''))
      \<and> message x \<noteq> [] \<and> \<not> js_includes (message x) msgServer
     \<longrightarrow> (\<exists>q. getPrediction e (Some pid) sent = (Inl x, sent @ [q])))
   \<and> (pid \<noteq> [] \<and> getPrediction e (Some pid) sent = (Inl err, sent')
      \<and> \<not> isNotFound err \<and> \<not> isServerInternal err
     \<longrightarrow> checkPredictionStatus e (Some pid) (a, sent)
         = (a\<lparr>resultContent := OtherError (message err)\<rparr>, sent'))"
proof -
  have one: "snd (fetchAPI e endpoint m data auth sent) = sent
      \<or> (\<exists>q. snd (fetchAPI e endpoint m data auth sent) = sent @ [q])"
    by (rule fetchAPI_sent)
  have three: "length (snd (getPrediction e ident sent)) \<le> length sent + 3"
    using getPrediction_loop_length [of e _ 0 sent]
    by (auto simp: getPrediction_def maxRetries_def split: option.splits)
  have rule: "pid \<noteq> []
     \<longrightarrow> getPrediction e (Some pid) sent =
         (case statusCall e pid sent of
            (Inr v, s1) \<Rightarrow> (Inr v, s1)
          | (Inl e1, s1) \<Rightarrow>
              if message e1 \<noteq> [] \<and> \<not> js_includes (message e1) msgServer then (Inl e1, s1)
              else
                (case statusCall e pid s1 of
                   (Inr v, s2) \<Rightarrow> (Inr v, s2)
                 | (Inl e2, s2) \<Rightarrow>
                     if message e2 \<noteq> [] \<and> \<not> js_includes (message e2) msgServer
                     then (Inl e2, s2)
                     else statusCall e pid s2))"
    using getPrediction_unrolled by blast
  have aborted: "pid \<noteq> [] \<and> \<not> falsyString (token e) \<and> (\<forall>s. network e s = Rejected x)
      \<and> name x = ascii ''AbortError''
     \<longrightarrow> (\<exists>q. getPrediction e (Some pid) sent = (Inl (Error msgTimeout), sent @ [q, q, q]))"
  proof
    assume h: "pid \<noteq> [] \<and> \<not> falsyString (token e) \<and> (\<forall>s. network e s = Rejected x)
      \<and> name x = ascii ''AbortError''"
    then obtain q where call: "\<forall>s. statusCall e pid s = (Inl (rethrow x), s @ [q])"
      using statusCall_rejected by blast
    from h have rt: "rethrow x = Error msgTimeout" by (simp add: rethrow_def)
    have "getPrediction e (Some pid) sent = (Inl (Error msgTimeout), sent @ [q, q, q])"
      using h call by (intro getPrediction_thrice) (simp_all add: rt Error_def server_word)
    then show "\<exists>q. getPrediction e (Some pid) sent
        = (Inl (Error msgTimeout), sent @ [q, q, q])" ..
  qed
  have refused: "pid \<noteq> [] \<and> \<not> falsyString (token e) \<and> (\<forall>s. network e s = Rejected x)
      \<and> name x = ascii ''TypeError'' \<and> js_includes (message x) (ascii ''Failed to fetch'')
     \<longrightarrow> (\<exists>q. getPrediction e (Some pid) sent = (Inl (Error msgNetwork), sent @ [q, q, q]))"
  proof
    assume h: "pid \<noteq> [] \<and> \<not> falsyString (token e) \<and> (\<forall>s. network e s = Rejected x)
      \<and> name x = ascii ''TypeError'' \<and> js_includes (message x) (ascii ''Failed to fetch'')"
    then obtain q where call: "\<forall>s. statusCall e pid s = (Inl (rethrow x), s @ [q])"
      using statusCall_rejected by blast
    from h have rt: "rethrow x = Error msgNetwork" by (simp add: rethrow_def ascii_def)
    have "getPrediction e (Some pid) sent = (Inl (Error msgNetwork), sent @ [q, q, q])"
      using h call by (intro getPrediction_thrice) (simp_all add: rt Error_def server_word)
    then show "\<exists>q. getPrediction e (Some pid) sent
        = (Inl (Error msgNetwork), sent @ [q, q, q])" ..
  qed
  have undecoded: "pid \<noteq> [] \<and> \<not> falsyString (token e) \<and> (\<forall>s. network e s = Resolved r)
      \<and> ok r \<and> contentType r = Some c \<and> js_includes c (ascii ''application/json'')
      \<and> jsonBody r = Inl parseError
     \<longrightarrow> (\<exists>q. getPrediction e (Some pid) sent = (Inl (Error msgBadJson), sent @ [q, q, q]))"
  proof
    assume h: "pid \<noteq> [] \<and> \<not> falsyString (token e) \<and> (\<forall>s. network e s = Resolved r)
      \<and> ok r \<and> contentType r = Some c \<and> js_includes c (ascii ''application/json'')
      \<and> jsonBody r = Inl parseError"
    from h have "c \<noteq> []" by (auto simp: ascii_def)
    with h have rd: "readResponse e r = Inl (Error msgBadJson)"
      by (simp add: readResponse_def falsyString_def isJsonContent_def)
    have rt: "rethrow (Error msgBadJson) = Error msgBadJson"
      by (simp add: rethrow_def Error_def ascii_def)
    from h rd obtain q
      where call: "\<forall>s. statusCall e pid s = (Inl (rethrow (Error msgBadJson)), s @ [q])"
      using statusCall_resolved by blast
    have "getPrediction e (Some pid) sent = (Inl (Error msgBadJson), sent @ [q, q, q])"
      using h call [unfolded rt]
      by (intro getPrediction_thrice) (simp_all add: Error_def server_word)
    then show "\<exists>q. getPrediction e (Some pid) sent
        = (Inl (Error msgBadJson), sent @ [q, q, q])" ..
  qed
  have silent: "pid \<noteq> [] \<and> \<not> falsyString (token e) \<and> (\<forall>s. network e s = Rejected x)
      \<and> message x = []
     \<longrightarrow> (\<exists>q y. getPrediction e (Some pid) sent = (Inl y, sent @ [q, q, q]))"
  proof
    assume h: "pid \<noteq> [] \<and> \<not> falsyString (token e) \<and> (\<forall>s. network e s = Rejected x)
      \<and> message x = []"
    then obtain q where call: "\<forall>s. statusCall e pid s = (Inl (rethrow x), s @ [q])"
      using statusCall_rejected by blast
    from h have "rethrow x = Error msgTimeout \<or> rethrow x = x"
      by (auto simp: rethrow_def ascii_def)
    with h have again: "message (rethrow x) = [] \<or> js_includes (message (rethrow x)) msgServer"
      by (auto simp: Error_def server_word)
    have "getPrediction e (Some pid) sent = (Inl (rethrow x), sent @ [q, q, q])"
      using h call again by (intro getPrediction_thrice) simp_all
    then show "\<exists>q y. getPrediction e (Some pid) sent = (Inl y, sent @ [q, q, q])"
      by blast
  qed
  have passed: "pid \<noteq> [] \<and> \<not> falsyString (token e) \<and> (\<forall>s. network e s = Rejected x)
      \<and> name x \<noteq> ascii ''AbortError''
      \<and> \<not> (name x = ascii ''TypeError''
             \<and> js_includes (message x) (ascii ''Failed to fetch''))
      \<and> message x \<noteq> [] \<and> \<not> js_includes (message x) msgServer
     \<longrightarrow> (\<exists>q. getPrediction e (Some pid) sent = (Inl x, sent @ [q]))"
  proof
    assume h: "pid \<noteq> [] \<and> \<not> falsyString (token e) \<and> (\<forall>s. network e s = Rejected x)
      \<and> name x \<noteq> ascii ''AbortError''
      \<and> \<not> (name x = ascii ''TypeError''
             \<and> js_includes (message x) (ascii ''Failed to fetch''))
      \<and> message x \<noteq> [] \<and> \<not> js_includes (message x) msgServer"
    then obtain q where call: "\<forall>s. statusCall e pid s = (Inl (rethrow x), s @ [q])"
      using statusCall_rejected by blast
    from h have rt: "rethrow x = x" by (auto simp: rethrow_def)
    have "getPrediction e (Some pid) sent = (Inl x, sent @ [q])"
      using h call by (intro getPrediction_once) (simp_all add: rt)
    then show "\<exists>q. getPrediction e (Some pid) sent = (Inl x, sent @ [q])" ..
  qed
  have shown: "pid \<noteq> [] \<and> getPrediction e (Some pid) sent = (Inl err, sent')
      \<and> \<not> isNotFound err \<and> \<not> isServerInternal err
     \<longrightarrow> checkPredictionStatus e (Some pid) (a, sent)
         = (a\<lparr>resultContent := OtherError (message err)\<rparr>, sent')"
    by (simp add: checkPredictionStatus_failure catchBody_other)
  from one three rule aborted refused undecoded silent passed shown
  show ?thesis by (intro conjI)
qed

theorem retry_layers_witness:
  "fst (getPrediction (constantly controllerAborted) (Some (ascii ''J1'')) [])
     = Inl (Error msgTimeout)
   \<and> length (snd (getPrediction (constantly controllerAborted) (Some (ascii ''J1'')) [])) = 3
   \<and> length (snd (getPrediction (scripted []) (Some (ascii ''J1'')) [])) = 3
   \<and> length (snd (getPrediction (constantly malformedJson) (Some (ascii ''J1'')) [])) = 3
   \<and> length (snd (getPrediction (constantly (Rejected (JSError (ascii ''Error'') [])))
        (Some (ascii ''J1'')) [])) = 3
   \<and> getPrediction (constantly signalTimedOut) (Some (ascii ''J1'')) []
     = statusCall (constantly signalTimedOut) (ascii ''J1'') []
   \<and> fst (getPrediction (constantly signalTimedOut) (Some (ascii ''J1'')) [])
     = Inl (JSError (ascii ''TimeoutError'') (ascii ''signal timed out''))
   \<and> length (snd (getPrediction (constantly signalTimedOut) (Some (ascii ''J1'')) [])) = 1
   \<and> fst (checkPredictionStatus (constantly signalTimedOut) (Some (ascii ''J1''))
        (freshApp, []))
     = freshApp\<lparr>resultContent := OtherError (ascii ''signal timed out'')\<rparr>"
proof -
  let ?J = "ascii ''J1''"
  let ?ab = "JSError (ascii ''AbortError'') (ascii ''The operation was aborted.'')"
  let ?ff = "TypeError (ascii ''Failed to fetch'')"
  let ?to = "JSError (ascii ''TimeoutError'') (ascii ''signal timed out'')"
  let ?em = "JSError (ascii ''Error'') []"
  let ?bad = "\<lparr>ok = True, status = 200, statusText = ascii ''OK'',
      contentType = Some (ascii ''application/json''),
      jsonBody = Inl (JSError (ascii ''SyntaxError'') (ascii ''Unexpected token'')),
      textBody = Inl (TypeError (ascii ''body used already''))\<rparr>"
  note j = J1_not_empty(1)
  have tok: "\<not> falsyString (token (constantly out))" for out
    by (simp add: constantly_def scripted_def falsyString_def ascii_def)
  have tok': "\<not> falsyString (token (scripted []))"
    by (simp add: scripted_def falsyString_def ascii_def)
  have net: "\<forall>s. network (constantly out) s = out" for out
    by (simp add: constantly_def)
  have net': "\<forall>s. network (scripted []) s = Rejected ?ff"
    by (simp add: scripted_def)
  have k2: "name ?ff = ascii ''TypeError''
      \<and> js_includes (message ?ff) (ascii ''Failed to fetch'')"
    by (simp add: TypeError_def ascii_def)
  have k3: "js_includes (ascii ''application/json'') (ascii ''application/json'')"
    by (simp add: ascii_def)
  have k5: "name ?to \<noteq> ascii ''AbortError''
      \<and> \<not> (name ?to = ascii ''TypeError''
             \<and> js_includes (message ?to) (ascii ''Failed to fetch''))
      \<and> message ?to \<noteq> [] \<and> \<not> js_includes (message ?to) msgServer"
    by (simp add: ascii_def msgServer_def)
  have k6: "\<not> isNotFound ?to \<and> \<not> isServerInternal ?to"
    by (simp add: isNotFound_def isServerInternal_def ascii_def)
  have "\<exists>q. getPrediction (constantly (Rejected ?ab)) (Some ?J) []
      = (Inl (Error msgTimeout), [] @ [q, q, q])"
    by (rule retry_layers [where x = ?ab, THEN conjunct2, THEN conjunct2, THEN conjunct2,
          THEN conjunct1, THEN mp])
      (simp add: j tok net)
  then obtain q1 where a: "getPrediction (constantly controllerAborted) (Some ?J) []
      = (Inl (Error msgTimeout), [] @ [q1, q1, q1])"
    unfolding controllerAborted_def by blast
  have "\<exists>q. getPrediction (scripted []) (Some ?J) []
      = (Inl (Error msgNetwork), [] @ [q, q, q])"
    by (rule retry_layers [where x = ?ff, THEN conjunct2, THEN conjunct2, THEN conjunct2,
          THEN conjunct2, THEN conjunct1, THEN mp])
      (simp add: j tok' net' k2)
  then obtain q2 where b: "getPrediction (scripted []) (Some ?J) []
      = (Inl (Error msgNetwork), [] @ [q2, q2, q2])"
    by blast
  have "\<exists>q. getPrediction (constantly (Resolved ?bad)) (Some ?J) []
      = (Inl (Error msgBadJson), [] @ [q, q, q])"
    by (rule retry_layers [where r = ?bad and c = "ascii ''application/json''"
          and parseError = "JSError (ascii ''SyntaxError'') (ascii ''Unexpected token'')",
          THEN conjunct2, THEN conjunct2, THEN conjunct2, THEN conjunct2, THEN conjunct2,
          THEN conjunct1, THEN mp])
      (simp add: j tok net k3)
  then obtain q3 where c: "getPrediction (constantly malformedJson) (Some ?J) []
      = (Inl (Error msgBadJson), [] @ [q3, q3, q3])"
    unfolding malformedJson_def by blast
  have "\<exists>q y. getPrediction (constantly (Rejected ?em)) (Some ?J) []
      = (Inl y, [] @ [q, q, q])"
    by (rule retry_layers [where x = ?em, THEN conjunct2, THEN conjunct2, THEN conjunct2,
          THEN conjunct2, THEN conjunct2, THEN conjunct2, THEN conjunct1, THEN mp])
      (simp add: j tok net)
  then obtain q4 y where d: "getPrediction (constantly (Rejected ?em)) (Some ?J) []
      = (Inl y, [] @ [q4, q4, q4])"
    by blast
  have "\<exists>q. getPrediction (constantly (Rejected ?to)) (Some ?J) [] = (Inl ?to, [] @ [q])"
    by (rule retry_layers [where x = ?to, THEN conjunct2, THEN conjunct2, THEN conjunct2,
          THEN conjunct2, THEN conjunct2, THEN conjunct2, THEN conjunct2, THEN conjunct1,
          THEN mp])
      (simp add: j tok net, simp add: ascii_def msgServer_def)
  then obtain q5 where f: "getPrediction (constantly signalTimedOut) (Some ?J) []
      = (Inl ?to, [] @ [q5])"
    unfolding signalTimedOut_def by blast
  have call: "statusCall (constantly signalTimedOut) ?J [] = (Inl ?to, [statusRequest ?J])"
    by (simp add: statusCall_def fetchAPI_def authorizationHeader_def requestBody_def
        constantly_def scripted_def signalTimedOut_def rethrow_def statusRequest_def ascii_def)
  have g: "getPrediction (constantly signalTimedOut) (Some ?J) []
      = statusCall (constantly signalTimedOut) ?J []"
    using retry_layers [where e = "constantly signalTimedOut" and pid = ?J and sent = "[]",
        THEN conjunct2, THEN conjunct2, THEN conjunct1, THEN mp, OF j] k5
    by (simp add: call)
  have h: "checkPredictionStatus (constantly signalTimedOut) (Some ?J) (freshApp, [])
      = (freshApp\<lparr>resultContent := OtherError (message ?to)\<rparr>, [] @ [q5])"
    by (rule retry_layers [THEN conjunct2, THEN conjunct2, THEN conjunct2, THEN conjunct2,
          THEN conjunct2, THEN conjunct2, THEN conjunct2, THEN conjunct2, THEN mp])
      (simp add: j f k6)
  from a b c d f g h show ?thesis by simp
qed

end
